theory Spec2Isabelle
  imports Complex_Main "HOL-Library.Log_Nat"
begin

section \<open>JavaScript values\<close>

text \<open>
  A JavaScript number is a double: a finite value, \<open>NaN\<close> or one of the two infinities.
  A finite value is kept as the rational it denotes (the two zeros are one). The sum and
  the product of two finite numbers are the exact result rounded to the nearest double,
  \<open>to_double\<close> below.
\<close>

datatype jsnum = Fin rat | NaN | PosInf | NegInf

text \<open>
  Rounding to the nearest double, ties to the even significand: 53 bits of significand,
  the least positive value \<open>2 ^ -1074\<close>, an infinity from \<open>2 ^ 1024 - 2 ^ 970\<close> on.
\<close>

definition pow2 :: "int \<Rightarrow> rat" where
  "pow2 e = (if 0 \<le> e then 2 ^ nat e else 1 / 2 ^ nat (- e))"

text \<open>For a positive \<open>a\<close>, the exponent \<open>e\<close> with \<open>2 ^ e \<le> a < 2 ^ (e + 1)\<close>.\<close>

definition floor_log2 :: "rat \<Rightarrow> int" where
  "floor_log2 a =
     (let (p, q) = quotient_of a; e = bitlen p - bitlen q
      in if pow2 e \<le> a then e else e - 1)"

definition round_even :: "rat \<Rightarrow> int" where
  "round_even x =
     (let f = \<lfloor>x\<rfloor>; d = x - of_int f
      in if d < 1 / 2 then f else if 1 / 2 < d then f + 1 else if even f then f else f + 1)"

definition to_double :: "rat \<Rightarrow> jsnum" where
  "to_double r =
     (if r = 0 then Fin 0
      else
        let a = \<bar>r\<bar>;
            e = max (floor_log2 a - 52) (- 1074);
            v = of_int (round_even (a / pow2 e)) * pow2 e
        in if pow2 1024 \<le> v then (if 0 < r then PosInf else NegInf)
           else Fin (if 0 < r then v else - v))"

text \<open>\<^verbatim>\<open>Number.isFinite\<close> on a number.\<close>

fun isFinite :: "jsnum \<Rightarrow> bool" where
  "isFinite (Fin r) = True"
| "isFinite NaN = False"
| "isFinite PosInf = False"
| "isFinite NegInf = False"

text \<open>
  The binary \<^verbatim>\<open>-\<close> of two numbers (IEEE 754 on the non-finite values). It is only used
  by the comparators of \<^verbatim>\<open>sort\<close>, which look at the sign of the result; the rounded
  difference of two doubles has the sign of the exact difference, which is kept here.
\<close>

fun js_sub :: "jsnum \<Rightarrow> jsnum \<Rightarrow> jsnum" where
  "js_sub (Fin a) (Fin b) = Fin (a - b)"
| "js_sub NaN _ = NaN"
| "js_sub _ NaN = NaN"
| "js_sub PosInf PosInf = NaN"
| "js_sub NegInf NegInf = NaN"
| "js_sub PosInf _ = PosInf"
| "js_sub NegInf _ = NegInf"
| "js_sub (Fin a) PosInf = NegInf"
| "js_sub (Fin a) NegInf = PosInf"

text \<open>The binary \<^verbatim>\<open>+\<close> and \<^verbatim>\<open>*\<close> of two numbers.\<close>

fun js_sign :: "jsnum \<Rightarrow> rat" where
  "js_sign (Fin r) = sgn r"
| "js_sign PosInf = 1"
| "js_sign NegInf = -1"
| "js_sign NaN = 0"

fun js_add :: "jsnum \<Rightarrow> jsnum \<Rightarrow> jsnum" where
  "js_add (Fin a) (Fin b) = to_double (a + b)"
| "js_add NaN _ = NaN"
| "js_add _ NaN = NaN"
| "js_add PosInf NegInf = NaN"
| "js_add NegInf PosInf = NaN"
| "js_add PosInf _ = PosInf"
| "js_add NegInf _ = NegInf"
| "js_add (Fin a) PosInf = PosInf"
| "js_add (Fin a) NegInf = NegInf"

definition js_mul :: "jsnum \<Rightarrow> jsnum \<Rightarrow> jsnum" where
  "js_mul a b =
     (case (a, b) of
        (Fin x, Fin y) \<Rightarrow> to_double (x * y)
      | _ \<Rightarrow> if a = NaN \<or> b = NaN \<or> js_sign a * js_sign b = 0 then NaN
             else if 0 < js_sign a * js_sign b then PosInf else NegInf)"

text \<open>A comparator result is "greater than zero": the left argument sorts after the right.\<close>

fun js_positive :: "jsnum \<Rightarrow> bool" where
  "js_positive (Fin r) = (0 < r)"
| "js_positive PosInf = True"
| "js_positive NaN = False"
| "js_positive NegInf = False"

text \<open>
  The values a document field or a JSON property can hold. Only \<^verbatim>\<open>typeof\<close>,
  truthiness and the conversions \<^verbatim>\<open>String(v)\<close> and \<^verbatim>\<open>Number(v)\<close> are ever applied to
  them, so an object (map, array, timestamp) is represented by what these two conversions
  return for it.
\<close>

datatype jsval =
    JUndefined
  | JNull
  | JBool bool
  | JNum jsnum
  | JStr string
  | JObj string jsnum

text \<open>The left operand of \<^verbatim>\<open>??\<close> is replaced when it is \<^verbatim>\<open>null\<close> or \<^verbatim>\<open>undefined\<close>.\<close>

fun nullish :: "jsval \<Rightarrow> bool" where
  "nullish JUndefined = True"
| "nullish JNull = True"
| "nullish _ = False"

definition coalesce :: "jsval \<Rightarrow> jsval \<Rightarrow> jsval" where
  "coalesce v d = (if nullish v then d else v)"

text \<open>
  The number-to-string and string-to-number algorithms of the language are parameters of
  the model: \<open>numToString\<close> is \<^verbatim>\<open>Number.prototype.toString\<close> and \<open>strToNumber\<close> is the
  StringToNumber parse.
\<close>

record host =
  numToString :: "jsnum \<Rightarrow> string"
  strToNumber :: "string \<Rightarrow> jsnum"

fun js_String :: "host \<Rightarrow> jsval \<Rightarrow> string" where
  "js_String h JUndefined = ''undefined''"
| "js_String h JNull = ''null''"
| "js_String h (JBool b) = (if b then ''true'' else ''false'')"
| "js_String h (JNum n) = numToString h n"
| "js_String h (JStr s) = s"
| "js_String h (JObj s n) = s"

fun js_Number :: "host \<Rightarrow> jsval \<Rightarrow> jsnum" where
  "js_Number h JUndefined = NaN"
| "js_Number h JNull = Fin 0"
| "js_Number h (JBool b) = (if b then Fin 1 else Fin 0)"
| "js_Number h (JNum n) = n"
| "js_Number h (JStr s) = strToNumber h s"
| "js_Number h (JObj s n) = n"

subsection \<open>Strings\<close>

text \<open>
  A string is a list of code units below 256. \<^verbatim>\<open>String.prototype.trim\<close> removes white
  space and line terminators from both ends; below 256 these are TAB, LF, VT, FF, CR,
  SPACE and NBSP.
\<close>

definition js_space :: "char \<Rightarrow> bool" where
  "js_space c = (of_char c \<in> {9, 10, 11, 12, 13, 32, 160 :: nat})"

definition trim :: "string \<Rightarrow> string" where
  "trim s = rev (dropWhile js_space (rev (dropWhile js_space s)))"

subsection \<open>Arrays\<close>

text \<open>
  \<^verbatim>\<open>Array.prototype.sort\<close> with a comparator. The sort is stable; an element moves
  behind another one only when the comparator of the two is greater than zero. For a
  comparator that is consistent, as the two used here are, the language fixes the result:
  the stable sorted order, which insertion from the right computes.
\<close>

fun sort_insert :: "('a \<Rightarrow> 'a \<Rightarrow> jsnum) \<Rightarrow> 'a \<Rightarrow> 'a list \<Rightarrow> 'a list" where
  "sort_insert cmp x [] = [x]"
| "sort_insert cmp x (y # ys) =
     (if js_positive (cmp x y) then y # sort_insert cmp x ys else x # y # ys)"

definition array_sort :: "('a \<Rightarrow> 'a \<Rightarrow> jsnum) \<Rightarrow> 'a list \<Rightarrow> 'a list" where
  "array_sort cmp xs = foldr (sort_insert cmp) xs []"

text \<open>\<^verbatim>\<open>Array.prototype.findIndex\<close>: the first position that satisfies \<open>p\<close>, or \<open>-1\<close>.\<close>

fun findIndex :: "('a \<Rightarrow> bool) \<Rightarrow> 'a list \<Rightarrow> int" where
  "findIndex p [] = -1"
| "findIndex p (x # xs) =
     (if p x then 0 else (let i = findIndex p xs in if i < 0 then -1 else i + 1))"

text \<open>
  \<^verbatim>\<open>arrayMove\<close> of the drag-and-drop library: copy the array, take the element at
  \<open>from\<close> out and put it back in at \<open>to\<close>. The editor calls it with two positions that
  \<open>findIndex\<close> found, so both are in range; for a \<open>from\<close> beyond the end there is no
  element to move and the copy is returned as it is.
\<close>

definition arrayMove :: "'a list \<Rightarrow> nat \<Rightarrow> nat \<Rightarrow> 'a list" where
  "arrayMove array from to =
     (if from < length array
      then (let rest = take from array @ drop (Suc from) array
            in take to rest @ array ! from # drop to rest)
      else array)"

section \<open>The step list\<close>

record step =
  step_id :: string
  step_name :: string
  step_order :: jsnum

text \<open>
  \<^verbatim>\<open>uid()\<close> builds an id from \<^verbatim>\<open>Math.random()\<close> and \<^verbatim>\<open>Date.now()\<close>. The two sources are
  a function of the number of calls made so far, and that number is threaded through
  every function that may call \<^verbatim>\<open>uid()\<close>.
\<close>

type_synonym entropy = "nat \<Rightarrow> string \<times> string"

definition uid :: "entropy \<Rightarrow> nat \<Rightarrow> string \<times> nat" where
  "uid src k = (''st_'' @ fst (src k) @ ''_'' @ snd (src k), Suc k)"

text \<open>\<^verbatim>\<open>xs.map(f)\<close> for an \<open>f\<close> that may call \<^verbatim>\<open>uid()\<close>: left to right.\<close>

fun map_uid :: "('a \<Rightarrow> nat \<Rightarrow> 'b \<times> nat) \<Rightarrow> 'a list \<Rightarrow> nat \<Rightarrow> 'b list \<times> nat" where
  "map_uid f [] k = ([], k)"
| "map_uid f (x # xs) k =
     (let (y, k1) = f x k; (ys, k2) = map_uid f xs k1 in (y # ys, k2))"

text \<open>
  The object literal that the three functions below build from a step:
  \<^verbatim>\<open>id: String(s.id || uid())\<close>, the name, and
  \<^verbatim>\<open>order: Number.isFinite(s.order) ? s.order : 0\<close>. A step's id and name are strings, so
  \<^verbatim>\<open>String\<close> returns them as they are and \<^verbatim>\<open>s.id || uid()\<close> calls \<^verbatim>\<open>uid()\<close> exactly for
  the empty id.
\<close>

definition coerce_step :: "(string \<Rightarrow> string) \<Rightarrow> entropy \<Rightarrow> step \<Rightarrow> nat \<Rightarrow> step \<times> nat" where
  "coerce_step fname src s k =
     (let (i, k1) = (if step_id s = [] then uid src k else (step_id s, k))
      in (\<lparr>step_id = i,
           step_name = fname (step_name s),
           step_order = (if isFinite (step_order s) then step_order s else Fin 0)\<rparr>, k1))"

text \<open>
  \<^verbatim>\<open>xs.map((s, i) => ({ ...s, order: i + 1 }))\<close>. An index of an array is below
  \<open>2 ^ 32\<close>, so \<^verbatim>\<open>i + 1\<close> is exact.
\<close>

definition number_steps :: "step list \<Rightarrow> step list" where
  "number_steps xs =
     map (\<lambda>(i, s). s\<lparr>step_order := Fin (of_nat (i + 1))\<rparr>) (enumerate 0 xs)"

definition renumberByArrayOrder :: "entropy \<Rightarrow> step list \<Rightarrow> nat \<Rightarrow> step list \<times> nat" where
  "renumberByArrayOrder src steps k =
     (let (normalized, k1) = map_uid (coerce_step (\<lambda>n. n) src) steps k
      in (number_steps normalized, k1))"

definition renumberFromOrder :: "entropy \<Rightarrow> step list \<Rightarrow> nat \<Rightarrow> step list \<times> nat" where
  "renumberFromOrder src steps k =
     (let (mapped, k1) = map_uid (coerce_step (\<lambda>n. n) src) steps k;
          sorted = array_sort (\<lambda>a b. js_sub (step_order a) (step_order b)) mapped
      in renumberByArrayOrder src sorted k1)"

definition normalizeStepsForSave :: "entropy \<Rightarrow> step list \<Rightarrow> nat \<Rightarrow> step list \<times> nat" where
  "normalizeStepsForSave src steps k =
     (let (mapped, k1) = map_uid (coerce_step trim src) steps k;
          cleaned = filter (\<lambda>s. 0 < length (step_name s)) mapped
      in (number_steps cleaned, k1))"

subsection \<open>Loading\<close>

text \<open>
  An entry of the stored \<^verbatim>\<open>steps\<close> array is \<^verbatim>\<open>null\<close>, here \<open>None\<close>, or a value whose
  properties can be read; a property it does not have reads as \<open>JUndefined\<close> (so a
  string or a number in the array is an entry with no property). Reading a property of
  \<^verbatim>\<open>null\<close> throws a \<^verbatim>\<open>TypeError\<close>.
\<close>

record raw_step =
  raw_id :: jsval
  raw_name :: jsval
  raw_order :: jsval

datatype js_error = TypeError

text \<open>The object literal that \<^verbatim>\<open>load\<close> builds from an entry that is not \<^verbatim>\<open>null\<close>.\<close>

definition parse_object :: "host \<Rightarrow> entropy \<Rightarrow> raw_step \<Rightarrow> nat \<Rightarrow> step \<times> nat" where
  "parse_object h src obj k =
     (let (i, k1) = (if nullish (raw_id obj)
                     then (let (u, k') = uid src k in (JStr u, k'))
                     else (raw_id obj, k))
      in (\<lparr>step_id = js_String h i,
           step_name = js_String h (coalesce (raw_name obj) (JStr [])),
           step_order = js_Number h (coalesce (raw_order obj) (JNum (Fin 0)))\<rparr>, k1))"

text \<open>
  The callback of \<^verbatim>\<open>rawSteps.map\<close>: it reads \<^verbatim>\<open>obj.id\<close> first, which throws for
  \<^verbatim>\<open>null\<close> before \<^verbatim>\<open>uid()\<close> is called.
\<close>

definition parse_step :: "host \<Rightarrow> entropy \<Rightarrow> raw_step option \<Rightarrow> nat \<Rightarrow> (js_error + step) \<times> nat" where
  "parse_step h src x k =
     (case x of
        None \<Rightarrow> (Inl TypeError, k)
      | Some obj \<Rightarrow> (let (s, k1) = parse_object h src obj k in (Inr s, k1)))"

text \<open>\<^verbatim>\<open>xs.map(f)\<close> for an \<open>f\<close> that may throw: the first error ends the loop.\<close>

fun map_try :: "('a \<Rightarrow> nat \<Rightarrow> (js_error + 'b) \<times> nat) \<Rightarrow> 'a list \<Rightarrow> nat \<Rightarrow> (js_error + 'b list) \<times> nat" where
  "map_try f [] k = (Inr [], k)"
| "map_try f (x # xs) k =
     (case f x k of
        (Inl e, k1) \<Rightarrow> (Inl e, k1)
      | (Inr y, k1) \<Rightarrow>
          (case map_try f xs k1 of
             (Inl e, k2) \<Rightarrow> (Inl e, k2)
           | (Inr ys, k2) \<Rightarrow> (Inr (y # ys), k2)))"

text \<open>
  The part of \<^verbatim>\<open>load\<close> that turns the stored array into the editor's step list:
  parse every entry, drop the entries whose name trims to nothing, then
  \<open>renumberFromOrder\<close>. The result is \<open>Inr\<close> the list given to \<^verbatim>\<open>setSteps\<close>, or \<open>Inl\<close> the
  error thrown, after which \<^verbatim>\<open>setSteps\<close> is not called.
\<close>

definition load_steps :: "host \<Rightarrow> entropy \<Rightarrow> raw_step option list \<Rightarrow> nat \<Rightarrow> (js_error + step list) \<times> nat" where
  "load_steps h src rawSteps k =
     (case map_try (parse_step h src) rawSteps k of
        (Inl e, k1) \<Rightarrow> (Inl e, k1)
      | (Inr mapped, k1) \<Rightarrow>
          (let parsed = filter (\<lambda>s. 0 < length (trim (step_name s))) mapped;
               (loaded, k2) = renumberFromOrder src parsed k1
           in (Inr loaded, k2)))"

subsection \<open>Editing\<close>

definition onAddStep :: "entropy \<Rightarrow> step list \<Rightarrow> nat \<Rightarrow> step list \<times> nat" where
  "onAddStep src prev k =
     (let (u, k1) = uid src k
      in renumberByArrayOrder src
           (prev @ [\<lparr>step_id = u, step_name = [], step_order = Fin (of_nat (length prev + 1))\<rparr>]) k1)"

definition onDeleteStep :: "entropy \<Rightarrow> string \<Rightarrow> step list \<Rightarrow> nat \<Rightarrow> step list \<times> nat" where
  "onDeleteStep src i prev k =
     renumberByArrayOrder src (filter (\<lambda>x. step_id x \<noteq> i) prev) k"

definition onChangeName :: "string \<Rightarrow> string \<Rightarrow> step list \<Rightarrow> step list" where
  "onChangeName i v prev = map (\<lambda>x. if step_id x = i then x\<lparr>step_name := v\<rparr> else x) prev"

text \<open>
  \<^verbatim>\<open>onDragEnd\<close>: \<open>over\<close> is \<open>None\<close> when the element was dropped outside every target.
\<close>

definition onDragEnd :: "entropy \<Rightarrow> string \<Rightarrow> string option \<Rightarrow> step list \<Rightarrow> nat \<Rightarrow> step list \<times> nat" where
  "onDragEnd src active over prev k =
     (case over of
        None \<Rightarrow> (prev, k)
      | Some ov \<Rightarrow>
          if active = ov then (prev, k)
          else (let oldIndex = findIndex (\<lambda>x. step_id x = active) prev;
                    newIndex = findIndex (\<lambda>x. step_id x = ov) prev
                in if oldIndex < 0 \<or> newIndex < 0 then (prev, k)
                   else renumberByArrayOrder src (arrayMove prev (nat oldIndex) (nat newIndex)) k))"

text \<open>The order of every element is its position, counted from one.\<close>

definition contiguous :: "step list \<Rightarrow> bool" where
  "contiguous xs = (map step_order xs = map (\<lambda>i. Fin (of_nat (i + 1))) [0..<length xs])"

subsection \<open>What loading and saving are specified to do\<close>

text \<open>The finite value of a number, and 0 for a number that is not finite.\<close>

fun fin_value :: "jsnum \<Rightarrow> rat" where
  "fin_value (Fin r) = r"
| "fin_value NaN = 0"
| "fin_value PosInf = 0"
| "fin_value NegInf = 0"




text \<open>An id that some call of \<^verbatim>\<open>uid()\<close> returned.\<close>

definition generated :: "entropy \<Rightarrow> string \<Rightarrow> bool" where
  "generated src i = (\<exists>j. i = fst (uid src j))"


text \<open>The id of a saved step: the id it had, and a generated one for the empty id.\<close>

definition id_saved :: "entropy \<Rightarrow> step \<Rightarrow> step \<Rightarrow> bool" where
  "id_saved src s s' =
     (if step_id s = [] then generated src (step_id s') else step_id s' = step_id s)"

text \<open>
  The stored form of a saved step: the document holds the id and the name as strings and
  the order as a number.
\<close>

definition stored_step :: "step \<Rightarrow> raw_step option" where
  "stored_step s =
     Some \<lparr>raw_id = JStr (step_id s), raw_name = JStr (step_name s),
           raw_order = JNum (step_order s)\<rparr>"

section \<open>The work-type catalog\<close>

text \<open>
  A \<^verbatim>\<open>Map\<close> keeps its keys in the order of their first insertion, and the rows of the
  catalog are built in that order, so a \<^verbatim>\<open>Map\<close> is a list of key and value pairs with
  distinct keys; \<^verbatim>\<open>m.get(k)\<close> is \<open>map_of m k\<close>. A \<^verbatim>\<open>Set\<close> of strings is the list of its
  elements in insertion order.
\<close>

definition map_set :: "(string \<times> 'v) list \<Rightarrow> string \<Rightarrow> 'v \<Rightarrow> (string \<times> 'v) list" where
  "map_set m k v =
     (if k \<in> fst ` set m then map (\<lambda>(k', v'). if k' = k then (k', v) else (k', v')) m
      else m @ [(k, v)])"

definition set_add :: "string list \<Rightarrow> string \<Rightarrow> string list" where
  "set_add ids i = (if i \<in> set ids then ids else ids @ [i])"

record WorkTypeCodeDoc =
  code_label :: string
  code_order :: jsnum
  code_enabled :: bool

record TemplateMeta =
  meta_id :: string
  meta_title :: string
  meta_updatedAtLabel :: string

datatype source = Codes | Templates | Both

record WorkTypeRow =
  row_id :: string
  row_label :: string
  row_order :: jsnum
  row_enabled :: bool
  row_source :: source

fun normStr :: "jsval \<Rightarrow> string \<Rightarrow> string" where
  "normStr (JStr s) fallback = s"
| "normStr _ fallback = fallback"

definition normNum :: "host \<Rightarrow> jsval \<Rightarrow> jsnum \<Rightarrow> jsnum" where
  "normNum h v fallback = (let n = js_Number h v in if isFinite n then n else fallback)"

fun normBool :: "jsval \<Rightarrow> bool \<Rightarrow> bool" where
  "normBool (JBool b) fallback = b"
| "normBool _ fallback = fallback"

text \<open>
  A stored template document: the fields the pages read. \<open>tpl_steps\<close> is \<open>None\<close> when the
  field is not an array, \<open>tpl_updatedAt\<close> is \<open>None\<close> when it is not a timestamp.
\<close>

record template_doc =
  tpl_workTypeId :: jsval
  tpl_title :: jsval
  tpl_steps :: "raw_step option list option"
  tpl_updatedAt :: "nat option"

text \<open>
  The map that \<^verbatim>\<open>loadTemplatesMeta\<close> builds from the documents of the template collection;
  \<open>fmt\<close> is \<^verbatim>\<open>toDate().toLocaleString()\<close>.
\<close>

definition template_meta :: "(nat \<Rightarrow> string) \<Rightarrow> string \<times> template_doc \<Rightarrow> TemplateMeta" where
  "template_meta fmt d =
     \<lparr>meta_id = fst d,
      meta_title = normStr (tpl_title (snd d)) (fst d),
      meta_updatedAtLabel = (case tpl_updatedAt (snd d) of Some ts \<Rightarrow> fmt ts | None \<Rightarrow> [])\<rparr>"

definition templates_meta_of :: "(nat \<Rightarrow> string) \<Rightarrow> (string \<times> template_doc) list \<Rightarrow> (string \<times> TemplateMeta) list" where
  "templates_meta_of fmt docs = fold (\<lambda>d m. map_set m (fst d) (template_meta fmt d)) docs []"

text \<open>The \<^verbatim>\<open>workTypes\<close> memo: the union of the ids, a row for each, the rows sorted.\<close>

definition merged_ids :: "(string \<times> WorkTypeCodeDoc) list \<Rightarrow> (string \<times> TemplateMeta) list \<Rightarrow> string list" where
  "merged_ids codesMap templatesMeta =
     fold (\<lambda>i ids. set_add ids i) (map fst templatesMeta)
       (fold (\<lambda>i ids. set_add ids i) (map fst codesMap) [])"

definition work_type_row :: "(string \<times> WorkTypeCodeDoc) list \<Rightarrow> (string \<times> TemplateMeta) list \<Rightarrow> string \<Rightarrow> WorkTypeRow" where
  "work_type_row codesMap templatesMeta i =
     (let c = map_of codesMap i; t = map_of templatesMeta i
      in \<lparr>row_id = i,
          row_label = (case c of Some cd \<Rightarrow> code_label cd
                       | None \<Rightarrow> (case t of Some tm \<Rightarrow> meta_title tm | None \<Rightarrow> i)),
          row_order = (case c of Some cd \<Rightarrow> code_order cd | None \<Rightarrow> Fin 999999),
          row_enabled = (case c of Some cd \<Rightarrow> code_enabled cd | None \<Rightarrow> True),
          row_source = (if c \<noteq> None \<and> t \<noteq> None then Both
                        else if c \<noteq> None then Codes else Templates)\<rparr>)"

text \<open>
  The comparator of the rows. \<open>localeCompare\<close> is \<^verbatim>\<open>a.localeCompare(b, "ja")\<close>, a
  parameter: negative, zero or positive.
\<close>

definition sort_order :: "WorkTypeRow \<Rightarrow> jsnum" where
  "sort_order a = (if isFinite (row_order a) then row_order a else Fin 999999)"

definition row_compare :: "(string \<Rightarrow> string \<Rightarrow> int) \<Rightarrow> WorkTypeRow \<Rightarrow> WorkTypeRow \<Rightarrow> jsnum" where
  "row_compare localeCompare a b =
     (let ao = sort_order a; bo = sort_order b
      in if ao \<noteq> bo then js_sub ao bo
         else Fin (of_int (localeCompare (row_label a) (row_label b))))"

definition workTypes :: "(string \<Rightarrow> string \<Rightarrow> int) \<Rightarrow> (string \<times> WorkTypeCodeDoc) list \<Rightarrow> (string \<times> TemplateMeta) list \<Rightarrow> WorkTypeRow list" where
  "workTypes localeCompare codesMap templatesMeta =
     array_sort (row_compare localeCompare)
       (map (work_type_row codesMap templatesMeta) (merged_ids codesMap templatesMeta))"

text \<open>
  The \<^verbatim>\<open>maxOrder\<close> memo: \<^verbatim>\<open>Math.max\<close> of the finite row orders, and 0 when there is
  none.
\<close>

definition maxOrder :: "WorkTypeRow list \<Rightarrow> rat" where
  "maxOrder rows =
     (let orders = filter isFinite (map row_order rows)
      in if orders = [] then 0 else fold max (map fin_value (tl orders)) (fin_value (hd orders)))"

section \<open>The page and the store\<close>

text \<open>
  A stored code document. A field that is absent reads as \<open>JUndefined\<close>; the two time
  stamps are \<open>None\<close> when absent.
\<close>

record code_doc =
  cd_label :: jsval
  cd_order :: jsval
  cd_enabled :: jsval
  cd_createdAt :: "nat option"
  cd_updatedAt :: "nat option"

text \<open>
  The world outside the page: the two collections, each a list of document id and data,
  and the number of \<^verbatim>\<open>uid()\<close> calls made so far.
\<close>

record world =
  codes_col :: "(string \<times> code_doc) list"
  templates_col :: "(string \<times> template_doc) list"
  uid_calls :: nat

text \<open>
  What one run of an operation meets: the id that the store generates for a new
  document, whether the n-th write and the n-th read of the run succeed (a failed call
  throws), the server time of the n-th write, and the two sources of \<^verbatim>\<open>uid()\<close>.
\<close>

record net =
  autoId :: string
  writeOk :: "nat \<Rightarrow> bool"
  readOk :: "nat \<Rightarrow> bool"
  serverTime :: "nat \<Rightarrow> nat"
  toLocaleString :: "nat \<Rightarrow> string"
  localeCompare :: "string \<Rightarrow> string \<Rightarrow> int"
  entropy_src :: entropy

datatype loaded_label = LoadedAt string | NotCreated | NoUpdateTime | NeverLoaded

text \<open>
  The state of the page: the values of its \<^verbatim>\<open>useState\<close> cells. An operation below is
  one handler run to its end; the effects and snapshot listeners that run after it (the
  reload when the selected work type changes, the refresh of the code map) are not part
  of it.
\<close>

record page =
  page_userUid :: "string option"
  page_codesMap :: "(string \<times> WorkTypeCodeDoc) list"
  page_templatesMeta :: "(string \<times> TemplateMeta) list"
  page_loadingTemplatesMeta :: bool
  page_workTypeId :: string
  page_newWorkLabel :: string
  page_title :: string
  page_steps :: "step list"
  page_lastLoadedAt :: loaded_label
  page_loading :: bool
  page_saving :: bool

datatype alert = LoginRequired | LabelRequired | AddFailed | Saved | SaveFailed

text \<open>
  \<^verbatim>\<open>requireLogin\<close>: \<^verbatim>\<open>!userUid\<close> holds for \<^verbatim>\<open>null\<close> and for the empty string; the alert
  it then shows is \<open>LoginRequired\<close>.
\<close>

definition requireLogin :: "page \<Rightarrow> bool" where
  "requireLogin pg = (case page_userUid pg of None \<Rightarrow> False | Some u \<Rightarrow> u \<noteq> [])"

text \<open>
  \<^verbatim>\<open>loadTemplatesMeta\<close> as the \<open>n\<close>-th read of a run; it catches its own failure.
\<close>

definition loadTemplatesMeta :: "net \<Rightarrow> nat \<Rightarrow> world \<Rightarrow> page \<Rightarrow> page" where
  "loadTemplatesMeta nt n w pg =
     (if readOk nt n
      then pg\<lparr>page_templatesMeta := templates_meta_of (toLocaleString nt) (templates_col w),
              page_loadingTemplatesMeta := False\<rparr>
      else pg\<lparr>page_loadingTemplatesMeta := False\<rparr>)"

text \<open>\<^verbatim>\<open>setDoc(ref, data, { merge: true })\<close> with the label and the update time.\<close>

definition merge_label :: "(string \<times> code_doc) list \<Rightarrow> string \<Rightarrow> string \<Rightarrow> nat \<Rightarrow> (string \<times> code_doc) list" where
  "merge_label col i label t =
     map_set col i
       (case map_of col i of
          Some d \<Rightarrow> d\<lparr>cd_label := JStr label, cd_updatedAt := Some t\<rparr>
        | None \<Rightarrow> \<lparr>cd_label = JStr label, cd_order = JUndefined, cd_enabled = JUndefined,
                    cd_createdAt = None, cd_updatedAt = Some t\<rparr>)"

text \<open>
  \<^verbatim>\<open>addWorkType\<close>. The result is the page, the world and the alerts shown. The first
  write creates the code document, the second the template document under the same id.
\<close>

definition addWorkType :: "net \<Rightarrow> page \<Rightarrow> world \<Rightarrow> page \<times> world \<times> alert list" where
  "addWorkType nt pg w =
     (if \<not> requireLogin pg then (pg, w, [LoginRequired])
      else
        let label = trim (page_newWorkLabel pg) in
        if label = [] then (pg, w, [LabelRequired])
        else
          let i = autoId nt;
              rows = workTypes (localeCompare nt) (page_codesMap pg) (page_templatesMeta pg)
          in
          if \<not> writeOk nt 0 then (pg, w, [AddFailed])
          else
            let w1 = w\<lparr>codes_col := map_set (codes_col w) i
                        \<lparr>cd_label = JStr label,
                         cd_order = JNum (js_add (Fin (maxOrder rows)) (Fin 1)),
                         cd_enabled = JBool True,
                         cd_createdAt = Some (serverTime nt 0),
                         cd_updatedAt = Some (serverTime nt 0)\<rparr>\<rparr>
            in
            if \<not> writeOk nt 1 then (pg, w1, [AddFailed])
            else
              let w2 = w1\<lparr>templates_col := map_set (templates_col w1) i
                          \<lparr>tpl_workTypeId = JStr i,
                           tpl_title = JStr label,
                           tpl_steps = Some [],
                           tpl_updatedAt = Some (serverTime nt 1)\<rparr>\<rparr>;
                  pg1 = pg\<lparr>page_newWorkLabel := [], page_workTypeId := i\<rparr>
              in (loadTemplatesMeta nt 0 w2 pg1, w2, []))"

text \<open>
  \<^verbatim>\<open>onSaveTemplate\<close>. \<^verbatim>\<open>selectedWork\<close> is the row of the selected work type, if there is
  one; \<^verbatim>\<open>a || b\<close> on strings takes \<open>b\<close> when \<open>a\<close> is empty.
\<close>

definition selectedWork :: "net \<Rightarrow> page \<Rightarrow> WorkTypeRow option" where
  "selectedWork nt pg =
     find (\<lambda>w. row_id w = page_workTypeId pg)
       (workTypes (localeCompare nt) (page_codesMap pg) (page_templatesMeta pg))"

definition fixedTitle :: "net \<Rightarrow> page \<Rightarrow> string" where
  "fixedTitle nt pg =
     trim (if page_title pg \<noteq> [] then page_title pg
           else (case selectedWork nt pg of
                   Some sw \<Rightarrow> if row_label sw \<noteq> [] then row_label sw else page_workTypeId pg
                 | None \<Rightarrow> page_workTypeId pg))"

definition onSaveTemplate :: "net \<Rightarrow> page \<Rightarrow> world \<Rightarrow> page \<times> world \<times> alert list" where
  "onSaveTemplate nt pg w =
     (if \<not> requireLogin pg then (pg, w, [LoginRequired])
      else
        let (fixedSteps, k1) = normalizeStepsForSave (entropy_src nt) (page_steps pg) (uid_calls w);
            w0 = w\<lparr>uid_calls := k1\<rparr>;
            i = page_workTypeId pg
        in
        if \<not> writeOk nt 0 then (pg\<lparr>page_saving := False\<rparr>, w0, [SaveFailed])
        else
          let w1 = w0\<lparr>templates_col := map_set (templates_col w0) i
                      \<lparr>tpl_workTypeId = JStr i,
                       tpl_title = JStr (fixedTitle nt pg),
                       tpl_steps = Some (map stored_step fixedSteps),
                       tpl_updatedAt = Some (serverTime nt 0)\<rparr>\<rparr>
          in
          if i \<in> fst ` set (page_codesMap pg) \<and> \<not> writeOk nt 1
          then (pg\<lparr>page_saving := False\<rparr>, w1, [SaveFailed])
          else
            let w2 = (if i \<in> fst ` set (page_codesMap pg)
                      then w1\<lparr>codes_col := merge_label (codes_col w1) i (fixedTitle nt pg)
                                              (serverTime nt 1)\<rparr>
                      else w1);
                pg1 = loadTemplatesMeta nt 0 w2 pg
            in
            if \<not> readOk nt 1 then (pg1\<lparr>page_saving := False\<rparr>, w2, [Saved, SaveFailed])
            else
              (case map_of (templates_col w2) i of
                 None \<Rightarrow> (pg1\<lparr>page_saving := False\<rparr>, w2, [Saved, SaveFailed])
               | Some d \<Rightarrow>
                   (pg1\<lparr>page_lastLoadedAt :=
                           (case tpl_updatedAt d of
                              Some ts \<Rightarrow> LoadedAt (toLocaleString nt ts)
                            | None \<Rightarrow> NoUpdateTime),
                         page_saving := False\<rparr>, w2, [Saved])))"

section \<open>The privileged endpoints\<close>

subsection \<open>Requests, responses and the server's surroundings\<close>

text \<open>
  The parsed body of a request: \<^verbatim>\<open>null\<close>, an object with its properties (each name
  once), or another JSON value, on which every property read below gives \<^verbatim>\<open>undefined\<close>.
  Reading a property of \<^verbatim>\<open>null\<close> throws; the handlers below say so where they first read
  one.
\<close>

datatype json_body = JsonNull | JsonObject "(string \<times> jsval) list" | JsonOther

fun property :: "json_body \<Rightarrow> string \<Rightarrow> jsval" where
  "property (JsonObject kvs) k = (case map_of kvs k of Some v \<Rightarrow> v | None \<Rightarrow> JUndefined)"
| "property _ k = JUndefined"

text \<open>
  A request: the \<^verbatim>\<open>authorization\<close> header, if present, and what \<^verbatim>\<open>req.json()\<close> gives,
  \<open>Inl\<close> the message of the error it throws.
\<close>

record request =
  req_authorization :: "string option"
  req_json :: "string + json_body"

record billing_raw =
  bl_status :: jsval
  bl_stripeSubscriptionId :: jsval
  bl_cancelAtPeriodEnd :: jsval
  bl_currentPeriodEndMs :: jsval

text \<open>A member document; \<open>md_billing\<close> is \<open>None\<close> when the field is not an object.\<close>

record member_data =
  md_uid :: jsval
  md_email :: jsval
  md_billing :: "billing_raw option"

text \<open>
  The subscription that the billing provider returns: the two fields the endpoint reads.
\<close>

record subscription =
  cancel_at_period_end :: jsval
  current_period_end :: jsval

text \<open>
  What a request meets on the server. A call that can throw is given with its outcome:
  \<open>Inl\<close> or \<open>Some\<close> the message of the error thrown; \<open>nullReadMessage\<close> is the message
  of the error that reading a property of \<^verbatim>\<open>null\<close> throws. \<open>dbRead n\<close> and \<open>dbWrite n\<close> are the
  n-th read and write of the store in a run; \<open>subscriptionsUpdate\<close> returns \<open>None\<close> for a
  value that is not an object.
\<close>

record server =
  RENOVA_ADMIN_UIDS :: "string option"
  STRIPE_SECRET_KEY :: "string option"
  getAdminApp :: "string option"
  verifyIdToken :: "string \<Rightarrow> string + string"
  reNovaMember :: "(string \<times> member_data) list"
  dbRead :: "nat \<Rightarrow> string option"
  dbWrite :: "nat \<Rightarrow> string option"
  createUser :: "string \<Rightarrow> string \<Rightarrow> string \<Rightarrow> string + string"
  subscriptionsUpdate :: "string \<Rightarrow> bool \<Rightarrow> string + subscription option"
  nullReadMessage :: string

datatype billing_mode = Free | Paid

datatype billing_status = Active | Inactive

record MemberRow =
  mr_uid :: string
  mr_email :: string
  mr_status :: billing_status
  mr_stripeSubscriptionId :: string
  mr_cancelAtPeriodEnd :: "bool option"
  mr_currentPeriodEndMs :: "jsnum option"

record billing_write =
  bw_mode :: billing_mode
  bw_status :: billing_status
  bw_stripeCustomerId :: string
  bw_stripeSubscriptionId :: string

record member_write =
  mw_uid :: string
  mw_email :: string
  mw_fullName :: string
  mw_phone :: string
  mw_companyName :: string
  mw_companyAddress :: string
  mw_billing :: billing_write

text \<open>
  The calls with an effect outside the server that a run has made, in order: the user
  created, the merge-writes to the two member collections and the subscription update.
\<close>

datatype effect =
    AuthCreateUser string string string
  | SetMember string member_write
  | SetBillingStatus string billing_write
  | StripeUpdate string bool
  | SetBillingMirror string "bool option" "jsnum option"

datatype payload =
    Failure string
  | Ok
  | OkUid string
  | OkMembers "MemberRow list"
  | OkCancel string string "bool option" "jsnum option"

type_synonym response = "nat \<times> payload"

subsection \<open>Coercions\<close>

fun toStr :: "jsval \<Rightarrow> string" where
  "toStr (JStr s) = s"
| "toStr _ = []"

fun toBoolOrNull :: "jsval \<Rightarrow> bool option" where
  "toBoolOrNull (JBool b) = Some b"
| "toBoolOrNull _ = None"

fun toNumOrNull :: "jsval \<Rightarrow> jsnum option" where
  "toNumOrNull (JNum n) = Some n"
| "toNumOrNull _ = None"

definition toMode :: "jsval \<Rightarrow> billing_mode" where
  "toMode v = (if v = JStr ''free'' then Free else Paid)"

definition toStatus :: "jsval \<Rightarrow> billing_status" where
  "toStatus v = (if v = JStr ''active'' then Active else Inactive)"

subsection \<open>The Identity Gate\<close>

text \<open>
  The match of \<^verbatim>\<open>/^Bearer\s+(.+)$/i\<close> against a header, and its group: the word in any
  case, white space, then at least one character up to the end, none of them a line
  terminator. The white space is matched greedily and gives back its last character when
  nothing else is left for the group.
\<close>

definition lower :: "char \<Rightarrow> char" where
  "lower c = (if 65 \<le> (of_char c :: nat) \<and> (of_char c :: nat) \<le> 90
              then char_of ((of_char c :: nat) + 32) else c)"

definition line_terminator :: "char \<Rightarrow> bool" where
  "line_terminator c = (of_char c \<in> {10, 13 :: nat})"

definition getBearer_match :: "string \<Rightarrow> string option" where
  "getBearer_match h =
     (if map lower (take 6 h) \<noteq> ''bearer'' then None
      else
        let rest = drop 6 h; r = dropWhile js_space rest in
        if length r = length rest then None
        else if r \<noteq> [] then (if list_ex line_terminator r then None else Some r)
        else if 2 \<le> length rest \<and> \<not> line_terminator (last rest) then Some [last rest]
        else None)"

definition getBearer :: "request \<Rightarrow> string option" where
  "getBearer req = getBearer_match (case req_authorization req of Some h \<Rightarrow> h | None \<Rightarrow> [])"

text \<open>\<^verbatim>\<open>s.split(",")\<close>\<close>

fun split_comma :: "string \<Rightarrow> string list" where
  "split_comma [] = [[]]"
| "split_comma (c # cs) =
     (if c = CHR '','' then [] # split_comma cs
      else (case split_comma cs of p # ps \<Rightarrow> (c # p) # ps | [] \<Rightarrow> [[c]]))"

definition parseAdminUids :: "server \<Rightarrow> string list" where
  "parseAdminUids srv =
     filter (\<lambda>s. 0 < length s)
       (map trim (split_comma (case RENOVA_ADMIN_UIDS srv of Some raw \<Rightarrow> raw | None \<Rightarrow> [])))"

text \<open>\<^verbatim>\<open>requireAdminFromRequest\<close>: \<open>Inl\<close> the message of the error thrown, \<open>Inr\<close> the uid.\<close>

definition requireAdminFromRequest :: "server \<Rightarrow> request \<Rightarrow> string + string" where
  "requireAdminFromRequest srv req =
     (case getBearer req of
        None \<Rightarrow> Inl ''missing_authorization''
      | Some token \<Rightarrow>
          (case getAdminApp srv of
             Some msg \<Rightarrow> Inl msg
           | None \<Rightarrow>
               (case verifyIdToken srv token of
                  Inl msg \<Rightarrow> Inl msg
                | Inr decoded_uid \<Rightarrow>
                    if decoded_uid \<in> set (parseAdminUids srv) then Inr decoded_uid
                    else Inl ''not_admin'')))"

text \<open>The \<^verbatim>\<open>catch\<close> of the two endpoints that call the gate.\<close>

definition gate_catch :: "string \<Rightarrow> response" where
  "gate_catch msg =
     ((if msg = ''missing_authorization'' then 401 else if msg = ''not_admin'' then 403 else 500),
      Failure msg)"

subsection \<open>Billing status set\<close>

definition billing_status_POST :: "server \<Rightarrow> request \<Rightarrow> response \<times> effect list" where
  "billing_status_POST srv req =
     (case requireAdminFromRequest srv req of
        Inl msg \<Rightarrow> (gate_catch msg, [])
      | Inr _ \<Rightarrow>
          (case req_json req of
             Inl msg \<Rightarrow> (gate_catch msg, [])
           | Inr body \<Rightarrow>
               if body = JsonNull then (gate_catch (nullReadMessage srv), [])
               else
               let u = trim (toStr (property body ''uid'')) in
               if u = [] then ((400, Failure ''uid_required''), [])
               else
                 let mode = toMode (property body ''mode'');
                     status = toStatus (property body ''status'');
                     stripeCustomerId =
                       toStr (coalesce (property body ''stripeCustomerId'') (JStr []));
                     stripeSubscriptionId =
                       toStr (coalesce (property body ''stripeSubscriptionId'') (JStr []))
                 in (case dbWrite srv 0 of
                       Some msg \<Rightarrow> (gate_catch msg, [])
                     | None \<Rightarrow>
                         ((200, Ok),
                          [SetBillingStatus u
                             \<lparr>bw_mode = mode, bw_status = status,
                              bw_stripeCustomerId = stripeCustomerId,
                              bw_stripeSubscriptionId = stripeSubscriptionId\<rparr>]))))"

subsection \<open>Member creation\<close>

text \<open>\<^verbatim>\<open>s.replace(/[^\d+]/g, "").trim()\<close>\<close>

definition normalizePhone :: "string \<Rightarrow> string" where
  "normalizePhone s =
     trim (filter (\<lambda>c. (48 \<le> (of_char c :: nat) \<and> (of_char c :: nat) \<le> 57) \<or> c = CHR ''+'') s)"

definition create_member_POST :: "server \<Rightarrow> request \<Rightarrow> response \<times> effect list" where
  "create_member_POST srv req =
     (case requireAdminFromRequest srv req of
        Inl msg \<Rightarrow> (gate_catch msg, [])
      | Inr _ \<Rightarrow>
          (case req_json req of
             Inl msg \<Rightarrow> (gate_catch msg, [])
           | Inr body \<Rightarrow>
               if body = JsonNull then (gate_catch (nullReadMessage srv), [])
               else
               let email = trim (toStr (property body ''email''));
                   password = toStr (property body ''password'');
                   fullName = trim (toStr (property body ''fullName''));
                   phone = normalizePhone (toStr (property body ''phone''));
                   companyName = trim (toStr (property body ''companyName''));
                   companyAddress = trim (toStr (property body ''companyAddress''));
                   billingMode = toMode (property body ''billingMode'')
               in
               if email = [] then ((400, Failure ''email_required''), [])
               else if password = [] \<or> length password < 6
                 then ((400, Failure ''password_min_6''), [])
               else if fullName = [] then ((400, Failure ''fullName_required''), [])
               else if companyName = [] then ((400, Failure ''companyName_required''), [])
               else
                 (case createUser srv email password fullName of
                    Inl msg \<Rightarrow> (gate_catch msg, [])
                  | Inr new_uid \<Rightarrow>
                      (case dbWrite srv 0 of
                         Some msg \<Rightarrow> (gate_catch msg, [AuthCreateUser email password fullName])
                       | None \<Rightarrow>
                           ((200, OkUid new_uid),
                            [AuthCreateUser email password fullName,
                             SetMember new_uid
                               \<lparr>mw_uid = new_uid, mw_email = email, mw_fullName = fullName,
                                mw_phone = phone, mw_companyName = companyName,
                                mw_companyAddress = companyAddress,
                                mw_billing =
                                  \<lparr>bw_mode = billingMode,
                                   bw_status = (if billingMode = Free then Active else Inactive),
                                   bw_stripeCustomerId = [],
                                   bw_stripeSubscriptionId = []\<rparr>\<rparr>])))))"

subsection \<open>Member list\<close>

definition billing_field :: "(billing_raw \<Rightarrow> jsval) \<Rightarrow> member_data \<Rightarrow> jsval" where
  "billing_field f data = (case md_billing data of Some b \<Rightarrow> f b | None \<Rightarrow> JUndefined)"

definition member_row :: "string \<times> member_data \<Rightarrow> MemberRow" where
  "member_row d =
     \<lparr>mr_uid = (if toStr (md_uid (snd d)) \<noteq> [] then toStr (md_uid (snd d)) else fst d),
      mr_email = toStr (md_email (snd d)),
      mr_status = toStatus (billing_field bl_status (snd d)),
      mr_stripeSubscriptionId = toStr (billing_field bl_stripeSubscriptionId (snd d)),
      mr_cancelAtPeriodEnd = toBoolOrNull (billing_field bl_cancelAtPeriodEnd (snd d)),
      mr_currentPeriodEndMs = toNumOrNull (billing_field bl_currentPeriodEndMs (snd d))\<rparr>"

text \<open>The handler does not read its request.\<close>

definition members_list_POST :: "server \<Rightarrow> request \<Rightarrow> response \<times> effect list" where
  "members_list_POST srv req =
     (case getAdminApp srv of
        Some msg \<Rightarrow> ((500, Failure msg), [])
      | None \<Rightarrow>
          (case dbRead srv 0 of
             Some msg \<Rightarrow> ((500, Failure msg), [])
           | None \<Rightarrow> ((200, OkMembers (map member_row (reNovaMember srv))), [])))"

subsection \<open>Cancel at period end\<close>

text \<open>
  \<^verbatim>\<open>findMemberRefByUid\<close>: the document with the id \<open>u\<close>, or else the first document whose
  \<^verbatim>\<open>uid\<close> field is \<open>u\<close>. \<open>Inl\<close> is the message of a failed read.
\<close>

definition findMemberRefByUid :: "server \<Rightarrow> string \<Rightarrow> string + string option" where
  "findMemberRefByUid srv u =
     (case dbRead srv 0 of
        Some msg \<Rightarrow> Inl msg
      | None \<Rightarrow>
          if u \<in> fst ` set (reNovaMember srv) then Inr (Some u)
          else
            (case dbRead srv 1 of
               Some msg \<Rightarrow> Inl msg
             | None \<Rightarrow>
                 (case filter (\<lambda>d. md_uid (snd d) = JStr u) (reNovaMember srv) of
                    [] \<Rightarrow> Inr None
                  | d # _ \<Rightarrow> Inr (Some (fst d)))))"

text \<open>\<^verbatim>\<open>mustEnv("STRIPE_SECRET_KEY")\<close> in \<^verbatim>\<open>getStripe\<close>: does it throw.\<close>

definition getStripe :: "server \<Rightarrow> string option" where
  "getStripe srv =
     (case STRIPE_SECRET_KEY srv of
        None \<Rightarrow> Some ''STRIPE_SECRET_KEY is missing''
      | Some v \<Rightarrow> if v = [] \<or> trim v = [] then Some ''STRIPE_SECRET_KEY is missing'' else None)"

definition cancel_POST :: "server \<Rightarrow> request \<Rightarrow> response \<times> effect list" where
  "cancel_POST srv req =
     (case getBearer req of
        None \<Rightarrow> ((401, Failure ''UNAUTHORIZED''), [])
      | Some token \<Rightarrow>
     (case getAdminApp srv of
        Some msg \<Rightarrow> ((500, Failure msg), [])
      | None \<Rightarrow>
     (case verifyIdToken srv token of
        Inl msg \<Rightarrow> ((500, Failure msg), [])
      | Inr decoded_uid \<Rightarrow>
     if decoded_uid = [] then ((401, Failure ''UNAUTHORIZED''), [])
     else
     (case req_json req of
        Inl msg \<Rightarrow> ((500, Failure msg), [])
      | Inr body \<Rightarrow>
     if body = JsonNull then ((500, Failure (nullReadMessage srv)), [])
     else
     let u = toStr (property body ''uid'');
         cancelAtPeriodEnd = toBoolOrNull (property body ''cancelAtPeriodEnd'')
     in
     if u = [] \<or> cancelAtPeriodEnd = None then ((400, Failure ''BAD_REQUEST''), [])
     else
     (case findMemberRefByUid srv u of
        Inl msg \<Rightarrow> ((500, Failure msg), [])
      | Inr None \<Rightarrow> ((404, Failure ''NOT_FOUND''), [])
      | Inr (Some memberRef) \<Rightarrow>
     (case dbRead srv 2 of
        Some msg \<Rightarrow> ((500, Failure msg), [])
      | None \<Rightarrow>
     let billing = (case map_of (reNovaMember srv) memberRef of
                      Some memberData \<Rightarrow> md_billing memberData
                    | None \<Rightarrow> None);
         stripeSubscriptionId = (case billing of
                                   Some b \<Rightarrow> toStr (bl_stripeSubscriptionId b)
                                 | None \<Rightarrow> [])
     in
     if stripeSubscriptionId = [] then ((400, Failure ''stripeSubscriptionId_missing''), [])
     else
     (case getStripe srv of
        Some msg \<Rightarrow> ((500, Failure msg), [])
      | None \<Rightarrow>
     (case subscriptionsUpdate srv stripeSubscriptionId (the cancelAtPeriodEnd) of
        Inl msg \<Rightarrow> ((500, Failure msg), [])
      | Inr updated \<Rightarrow>
     let cancel = (case updated of
                     Some s \<Rightarrow> toBoolOrNull (cancel_at_period_end s)
                   | None \<Rightarrow> None);
         cpeSec = (case updated of
                     Some s \<Rightarrow> toNumOrNull (current_period_end s)
                   | None \<Rightarrow> None);
         currentPeriodEndMs = (case cpeSec of
                                 Some n \<Rightarrow> Some (js_mul n (Fin 1000))
                               | None \<Rightarrow> None)
     in
     (case dbWrite srv 0 of
        Some msg \<Rightarrow>
          ((500, Failure msg), [StripeUpdate stripeSubscriptionId (the cancelAtPeriodEnd)])
      | None \<Rightarrow>
          ((200, OkCancel u stripeSubscriptionId cancel currentPeriodEndMs),
           [StripeUpdate stripeSubscriptionId (the cancelAtPeriodEnd),
            SetBillingMirror memberRef cancel currentPeriodEndMs]))))))))))"

section \<open>Properties of the numbers\<close>

text \<open>An integer up to \<open>2 ^ 53\<close> in absolute value is a double.\<close>

lemma round_even_int: "round_even (of_int j) = j"
  by (simp add: round_even_def)

lemma floor_log2_int:
  assumes "0 < n"
  shows "floor_log2 (of_int n) = bitlen n - 1"
proof -
  have b: "2 ^ nat (bitlen n - 1) \<le> n" using bitlen_bounds [OF assms] by simp
  have nn: "0 \<le> bitlen n - 1"
    using assms bitlen_nonneg [of n] bitlen_eq_zero_iff [of n] by linarith
  have "pow2 (bitlen n - 1) \<le> of_int n"
  proof -
    have "pow2 (bitlen n - 1) = of_int (2 ^ nat (bitlen n - 1))"
      using nn by (simp add: pow2_def)
    also have "\<dots> \<le> of_int n" using b by (simp only: of_int_le_iff)
    finally show ?thesis .
  qed
  moreover have "bitlen (1::int) = 1" by (simp add: bitlen_alt_def)
  ultimately show ?thesis by (simp add: floor_log2_def quotient_of_int)
qed

lemma to_double_pos_int:
  assumes "0 < n" and "n \<le> 2 ^ 53"
  shows "to_double (of_int n) = Fin (of_int n)"
proof -
  define k where "k = bitlen n - 1"
  have k0: "0 \<le> k"
    using assms(1) bitlen_nonneg [of n] bitlen_eq_zero_iff [of n] by (simp add: k_def)
  have lo: "(2::int) ^ nat k \<le> n" using bitlen_bounds [OF assms(1)] by (simp add: k_def)
  have le53: "(2::int) ^ nat k \<le> 2 ^ 53" using lo assms(2) by linarith
  have "nat k \<le> 53"
  proof (rule power_le_imp_le_exp)
    show "(1::int) < 2" by simp
    show "(2::int) ^ nat k \<le> 2 ^ 53" by (fact le53)
  qed
  then have k53: "k \<le> 53" by simp
  have fl: "floor_log2 (of_int n) = k" using floor_log2_int [OF assms(1)] by (simp add: k_def)
  have e: "max (k - 52) (- 1074) = k - 52" using k0 by simp
  have v: "of_int (round_even (of_int n / pow2 (k - 52))) * pow2 (k - 52) = (of_int n :: rat)"
  proof (cases "k \<le> 52")
    case True
    then have p: "pow2 (k - 52) = 1 / 2 ^ nat (52 - k)"
      by (cases "k = 52") (simp_all add: pow2_def)
    have "(of_int n :: rat) / pow2 (k - 52) = of_int (n * 2 ^ nat (52 - k))"
      by (simp add: p)
    then have "round_even (of_int n / pow2 (k - 52)) = n * 2 ^ nat (52 - k)"
      by (simp only: round_even_int)
    then show ?thesis by (simp add: p)
  next
    case False
    then have k: "k = 53" using k53 by simp
    then have n: "n = 2 ^ 53" using lo assms(2) by simp
    have "(of_int n :: rat) / pow2 (k - 52) = of_int (2 ^ 52)"
      by (simp add: n k pow2_def)
    then have "round_even (of_int n / pow2 (k - 52)) = 2 ^ 52"
      by (simp only: round_even_int)
    then show ?thesis by (simp add: n k pow2_def)
  qed
  have "(of_int n :: rat) \<le> of_int (2 ^ 53)" using assms(2) by (simp only: of_int_le_iff)
  also have "\<dots> < pow2 1024" by (simp add: pow2_def)
  finally have small: "\<not> pow2 1024 \<le> (of_int n :: rat)" by simp
  have pos: "(0::rat) < of_int n" using assms(1) by simp
  show ?thesis
    using pos small by (simp add: to_double_def Let_def fl e v)
qed

lemma to_double_int:
  assumes "\<bar>n\<bar> \<le> 2 ^ 53"
  shows "to_double (of_int n) = Fin (of_int n)"
proof -
  consider "n = 0" | "0 < n" | "n < 0" by linarith
  then show ?thesis
  proof cases
    case 1
    then show ?thesis by (simp add: to_double_def)
  next
    case 2
    then show ?thesis using assms to_double_pos_int by simp
  next
    case 3
    then have p: "0 < - n" and le: "- n \<le> 2 ^ 53" using assms by simp_all
    have pos: "to_double (of_int (- n)) = Fin (of_int (- n))"
      using p le by (rule to_double_pos_int)
    have "to_double (- r) = (case to_double r of Fin v \<Rightarrow> Fin (- v) | PosInf \<Rightarrow> NegInf
            | NegInf \<Rightarrow> PosInf | NaN \<Rightarrow> NaN)" for r
      by (simp add: to_double_def Let_def)
    from this [of "of_int (- n)"] pos show ?thesis by simp
  qed
qed

lemma to_double_Ints:
  assumes "r \<in> \<int>" and "\<bar>r\<bar> \<le> 2 ^ 53"
  shows "to_double r = Fin r"
proof -
  from assms(1) obtain n where n: "r = of_int n" by (auto elim: Ints_cases)
  have "\<bar>n\<bar> \<le> 2 ^ 53"
  proof -
    have "(of_int \<bar>n\<bar> :: rat) \<le> of_int (2 ^ 53)" using assms(2) n by simp
    then show ?thesis by (simp only: of_int_le_iff)
  qed
  then show ?thesis using to_double_int n by simp
qed

section \<open>Properties of the step list\<close>

lemma map_fst_arg: "map (\<lambda>p. g (fst p)) ps = map g (map fst ps)"
  by (induction ps) auto

lemma map_snd_arg: "map (\<lambda>p. g (snd p)) ps = map g (map snd ps)"
  by (induction ps) auto

lemma length_map_uid: "length (fst (map_uid f xs k)) = length xs"
proof (induction xs arbitrary: k)
  case Nil
  then show ?case by simp
next
  case (Cons x xs)
  obtain y k1 where f: "f x k = (y, k1)" by (cases "f x k")
  obtain ys k2 where m: "map_uid f xs k1 = (ys, k2)" by (cases "map_uid f xs k1")
  from Cons.IH [of k1] m have "length ys = length xs" by simp
  then show ?case using f m by simp
qed

lemma map_uid_all2:
  assumes "\<And>x k. R x (fst (f x k))"
  shows "list_all2 R xs (fst (map_uid f xs k))"
  using assms
proof (induction xs arbitrary: k)
  case Nil
  then show ?case by simp
next
  case (Cons x xs)
  obtain y k1 where f: "f x k = (y, k1)" by (cases "f x k")
  obtain ys k2 where m: "map_uid f xs k1 = (ys, k2)" by (cases "map_uid f xs k1")
  have "R x y" using Cons.prems [of x k] f by simp
  moreover have "list_all2 R xs ys" using Cons.IH [of k1] Cons.prems m by simp
  ultimately show ?case using f m by simp
qed

lemma order_number_steps:
  "map step_order (number_steps xs) = map (\<lambda>i. Fin (of_nat (i + 1))) [0..<length xs]"
proof -
  have "map step_order (number_steps xs) =
        map (\<lambda>p. Fin (of_nat (fst p + 1))) (enumerate 0 xs)"
    by (simp add: number_steps_def case_prod_beta)
  also have "\<dots> = map (\<lambda>i. Fin (of_nat (i + 1))) (map fst (enumerate 0 xs))"
    by (rule map_fst_arg)
  finally show ?thesis by simp
qed

lemma length_number_steps: "length (number_steps xs) = length xs"
  by (simp add: number_steps_def)

lemma contiguous_number_steps: "contiguous (number_steps xs)"
  by (simp add: contiguous_def order_number_steps length_number_steps)

lemma name_number_steps: "map step_name (number_steps xs) = map step_name xs"
proof -
  have "map step_name (number_steps xs) = map (\<lambda>p. step_name (snd p)) (enumerate 0 xs)"
    by (simp add: number_steps_def case_prod_beta)
  also have "\<dots> = map step_name (map snd (enumerate 0 xs))"
    by (rule map_snd_arg)
  finally show ?thesis by simp
qed

lemma id_number_steps: "map step_id (number_steps xs) = map step_id xs"
proof -
  have "map step_id (number_steps xs) = map (\<lambda>p. step_id (snd p)) (enumerate 0 xs)"
    by (simp add: number_steps_def case_prod_beta)
  also have "\<dots> = map step_id (map snd (enumerate 0 xs))"
    by (rule map_snd_arg)
  finally show ?thesis by simp
qed

lemma contiguous_renumberByArrayOrder: "contiguous (fst (renumberByArrayOrder src xs k))"
  by (simp add: renumberByArrayOrder_def contiguous_number_steps split: prod.splits)

lemma contiguous_onChangeName: "contiguous (onChangeName i v prev) = contiguous prev"
  by (simp add: contiguous_def onChangeName_def comp_def if_distrib cong: if_cong)

lemma findIndex_negative: "(findIndex p xs < 0) = (\<forall>x\<in>set xs. \<not> p x)"
  by (induction xs) (auto simp: Let_def)

lemma findIndex_range: "findIndex p xs < int (length xs)"
  by (induction xs) (auto simp: Let_def)

lemma length_arrayMove: "to \<le> length array \<Longrightarrow> length (arrayMove array from to) = length array"
  by (auto simp: arrayMove_def Let_def)

subsection \<open>The contiguity invariant\<close>

text \<open>
  Claim C1. For every step list \<open>prev\<close>: the list after adding a step, after deleting
  a step and after a drag that moves a step has, in every element, the order that is the
  element's position counted from one, and so has the list that saving canonicalises. A
  drag that ends outside every target, on the dragged element itself, or with an id the
  list does not hold changes nothing.
\<close>

theorem step_list_contiguity:
  "contiguous (fst (onAddStep src prev k))
   \<and> contiguous (fst (onDeleteStep src i prev k))
   \<and> (active \<noteq> ov \<and> active \<in> step_id ` set prev \<and> ov \<in> step_id ` set prev
        \<longrightarrow> contiguous (fst (onDragEnd src active (Some ov) prev k)))
   \<and> (over = None \<or> over = Some active \<or> active \<notin> step_id ` set prev
          \<or> the over \<notin> step_id ` set prev
        \<longrightarrow> onDragEnd src active over prev k = (prev, k))
   \<and> contiguous (fst (normalizeStepsForSave src prev k))"
proof (intro conjI impI)
  show "contiguous (fst (onAddStep src prev k))"
    by (simp add: onAddStep_def contiguous_renumberByArrayOrder split: prod.splits)
  show "contiguous (fst (onDeleteStep src i prev k))"
    by (simp add: onDeleteStep_def contiguous_renumberByArrayOrder)
  show "contiguous (fst (normalizeStepsForSave src prev k))"
    by (simp add: normalizeStepsForSave_def contiguous_number_steps split: prod.splits)
next
  assume h: "active \<noteq> ov \<and> active \<in> step_id ` set prev \<and> ov \<in> step_id ` set prev"
  then have "\<not> findIndex (\<lambda>x. step_id x = active) prev < 0"
    and "\<not> findIndex (\<lambda>x. step_id x = ov) prev < 0"
    by (auto simp: findIndex_negative)
  with h show "contiguous (fst (onDragEnd src active (Some ov) prev k))"
    by (simp add: onDragEnd_def Let_def contiguous_renumberByArrayOrder)
next
  assume h: "over = None \<or> over = Some active \<or> active \<notin> step_id ` set prev
          \<or> the over \<notin> step_id ` set prev"
  show "onDragEnd src active over prev k = (prev, k)"
  proof (cases over)
    case None
    then show ?thesis by (simp add: onDragEnd_def)
  next
    case (Some ov)
    show ?thesis
    proof (cases "active = ov")
      case True
      with Some show ?thesis by (simp add: onDragEnd_def)
    next
      case False
      with h Some have "active \<notin> step_id ` set prev \<or> ov \<notin> step_id ` set prev"
        by auto
      then have "findIndex (\<lambda>x. step_id x = active) prev < 0
                 \<or> findIndex (\<lambda>x. step_id x = ov) prev < 0"
        by (auto simp: findIndex_negative)
      with Some False show ?thesis by (auto simp: onDragEnd_def Let_def)
    qed
  qed
qed

theorem step_list_contiguity_witness:
  "''a'' \<noteq> ''c''
   \<and> contiguous (fst (onDragEnd (\<lambda>n. (''r'', ''t'')) ''a'' (Some ''c'')
        [\<lparr>step_id = ''a'', step_name = ''A'', step_order = Fin 1\<rparr>,
         \<lparr>step_id = ''b'', step_name = ''B'', step_order = Fin 2\<rparr>,
         \<lparr>step_id = ''c'', step_name = ''C'', step_order = Fin 3\<rparr>] 0))
   \<and> onDragEnd (\<lambda>n. (''r'', ''t'')) ''a'' (Some ''z'')
        [\<lparr>step_id = ''a'', step_name = ''A'', step_order = Fin 1\<rparr>,
         \<lparr>step_id = ''b'', step_name = ''B'', step_order = Fin 2\<rparr>,
         \<lparr>step_id = ''c'', step_name = ''C'', step_order = Fin 3\<rparr>] 0
       = ([\<lparr>step_id = ''a'', step_name = ''A'', step_order = Fin 1\<rparr>,
           \<lparr>step_id = ''b'', step_name = ''B'', step_order = Fin 2\<rparr>,
           \<lparr>step_id = ''c'', step_name = ''C'', step_order = Fin 3\<rparr>], 0)"
  using step_list_contiguity [of "\<lambda>n. (''r'', ''t'')"
        "[\<lparr>step_id = ''a'', step_name = ''A'', step_order = Fin 1\<rparr>,
          \<lparr>step_id = ''b'', step_name = ''B'', step_order = Fin 2\<rparr>,
          \<lparr>step_id = ''c'', step_name = ''C'', step_order = Fin 3\<rparr>]" 0 "''b''" "''a''" "''c''"
        "Some ''z''"]
  by simp

subsection \<open>Trimming\<close>

lemma dropWhile_fixed: "xs = [] \<or> \<not> P (hd xs) \<Longrightarrow> dropWhile P xs = xs"
  by (cases xs) auto

lemma dropWhile_head: "dropWhile P xs = [] \<or> \<not> P (hd (dropWhile P xs))"
  using hd_dropWhile [of P xs] by blast

lemma trim_idem: "trim (trim s) = trim s"
proof -
  define a where "a = dropWhile js_space s"
  define b where "b = dropWhile js_space (rev a)"
  have t: "trim s = rev b" by (simp add: trim_def a_def b_def)
  have a: "a = [] \<or> \<not> js_space (hd a)" unfolding a_def by (rule dropWhile_head)
  have b: "b = [] \<or> \<not> js_space (hd b)" unfolding b_def by (rule dropWhile_head)
  have "rev a = takeWhile js_space (rev a) @ b" by (simp add: b_def)
  then have "a = rev b @ rev (takeWhile js_space (rev a))"
    by (metis rev_append rev_rev_ident)
  then have "rev b = [] \<or> hd (rev b) = hd a" by (metis hd_append2)
  moreover have "rev b \<noteq> [] \<Longrightarrow> a \<noteq> []" using \<open>a = rev b @ _\<close> by auto
  ultimately have "rev b = [] \<or> \<not> js_space (hd (rev b))" using a by auto
  then have 1: "dropWhile js_space (rev b) = rev b" by (rule dropWhile_fixed)
  have 2: "dropWhile js_space b = b" using b by (rule dropWhile_fixed)
  have "trim (rev b) = rev (dropWhile js_space (rev (dropWhile js_space (rev b))))"
    by (simp only: trim_def)
  also have "\<dots> = rev b" by (simp only: 1 2 rev_rev_ident)
  finally show ?thesis by (simp only: t)
qed

subsection \<open>Sorting\<close>

lemma js_positive_sub: "js_positive (js_sub (Fin a) (Fin b)) = (\<not> a \<le> b)"
  by auto

lemma isFinite_Fin: "isFinite n \<Longrightarrow> n = Fin (fin_value n)"
  by (cases n) auto

lemma sort_insert_insort:
  assumes "isFinite (step_order x)" and "\<forall>y\<in>set ys. isFinite (step_order y)"
  shows "sort_insert (\<lambda>a b. js_sub (step_order a) (step_order b)) x ys
         = insort_key (\<lambda>s. fin_value (step_order s)) x ys"
  using assms
proof (induction ys)
  case Nil
  then show ?case by simp
next
  case (Cons y ys)
  obtain a where a: "step_order x = Fin a" using Cons.prems(1) by (cases "step_order x") auto
  obtain b where b: "step_order y = Fin b" using Cons.prems(2) by (cases "step_order y") auto
  show ?case using Cons a b by auto
qed

lemma set_insort_sub: "set (insort_key f x xs) = insert x (set xs)"
  by (simp add: set_insort_key)

lemma array_sort_sort_key:
  assumes "\<forall>y\<in>set ys. isFinite (step_order y)"
  shows "array_sort (\<lambda>a b. js_sub (step_order a) (step_order b)) ys
         = sort_key (\<lambda>s. fin_value (step_order s)) ys"
  using assms
proof (induction ys)
  case Nil
  then show ?case by (simp add: array_sort_def)
next
  case (Cons y ys)
  then have ih: "array_sort (\<lambda>a b. js_sub (step_order a) (step_order b)) ys
         = sort_key (\<lambda>s. fin_value (step_order s)) ys" by simp
  have fin: "\<forall>z\<in>set (sort_key (\<lambda>s. fin_value (step_order s)) ys). isFinite (step_order z)"
    using Cons.prems by simp
  have "array_sort (\<lambda>a b. js_sub (step_order a) (step_order b)) (y # ys)
        = sort_insert (\<lambda>a b. js_sub (step_order a) (step_order b)) y
            (sort_key (\<lambda>s. fin_value (step_order s)) ys)"
    using ih by (simp add: array_sort_def)
  also have "\<dots> = insort_key (\<lambda>s. fin_value (step_order s)) y
            (sort_key (\<lambda>s. fin_value (step_order s)) ys)"
    using Cons.prems fin by (intro sort_insert_insort) auto
  finally show ?case by simp
qed

subsection \<open>Related lists\<close>

lemma list_all2_filter:
  assumes "list_all2 R xs ys" and "\<And>x y. R x y \<Longrightarrow> p x = q y"
  shows "list_all2 R (filter p xs) (filter q ys)"
  using assms by (induction rule: list_all2_induct) auto



subsection \<open>One entry at a time\<close>

lemma generated_nonempty: "generated src i \<Longrightarrow> i \<noteq> []"
  by (auto simp: generated_def uid_def)

lemma generated_uid: "generated src (fst (uid src k))"
  by (auto simp: generated_def)





lemma map_try_null:
  assumes "None \<in> set rawSteps"
  shows "fst (map_try (parse_step h src) rawSteps k) = Inl TypeError"
  using assms
proof (induction rawSteps arbitrary: k)
  case Nil
  then show ?case by simp
next
  case (Cons x xs)
  show ?case
  proof (cases x)
    case None
    then show ?thesis by (simp add: parse_step_def)
  next
    case (Some obj)
    obtain s k1 where p: "parse_object h src obj k = (s, k1)"
      by (cases "parse_object h src obj k")
    have "fst (map_try (parse_step h src) xs k1) = Inl TypeError"
      using Cons Some by simp
    then obtain k2 where m: "map_try (parse_step h src) xs k1 = (Inl TypeError, k2)"
      by (cases "map_try (parse_step h src) xs k1") simp
    have "parse_step h src x k = (Inr s, k1)" using Some p by (simp add: parse_step_def)
    then show ?thesis using m by simp
  qed
qed

lemma coerce_step_name: "step_name (fst (coerce_step f src s k)) = f (step_name s)"
  by (simp add: coerce_step_def split: prod.splits)


lemma coerce_step_id: "id_saved src s (fst (coerce_step f src s k))"
proof (cases "step_id s = []")
  case True
  obtain u k' where u: "uid src k = (u, k')" by (cases "uid src k")
  then have "generated src u" using generated_uid [of src k] by simp
  with True u show ?thesis by (simp add: coerce_step_def id_saved_def)
next
  case False
  then show ?thesis by (simp add: coerce_step_def id_saved_def)
qed

lemma number_steps_all2:
  "list_all2 (\<lambda>(s::step) (s'::step). step_id s' = step_id s \<and> step_name s' = step_name s)
     xs (number_steps xs)"
proof -
  have "length xs = length (number_steps xs)" by (simp add: length_number_steps)
  moreover have "\<And>i. i < length xs \<Longrightarrow>
      step_id (number_steps xs ! i) = step_id (xs ! i)
      \<and> step_name (number_steps xs ! i) = step_name (xs ! i)"
    by (simp add: number_steps_def nth_enumerate_eq)
  ultimately show ?thesis by (simp add: list_all2_conv_all_nth)
qed

subsection \<open>Loading\<close>


lemma load_steps_null:
  assumes "None \<in> set rawSteps"
  shows "fst (load_steps h src rawSteps k) = Inl TypeError"
proof -
  obtain k1 where "map_try (parse_step h src) rawSteps k = (Inl TypeError, k1)"
    using map_try_null [OF assms, of h src k]
    by (cases "map_try (parse_step h src) rawSteps k") simp
  then show ?thesis by (simp add: load_steps_def)
qed




lemma trim_example: "trim ''A'' = ''A''" "trim ''B'' = ''B''" "trim '' y '' = ''y''" "trim ''x'' = ''x''"
  by (simp_all add: trim_def js_space_def)



subsection \<open>Saving\<close>

lemma save_related:
  "list_all2 (\<lambda>s s'. step_name s' = trim (step_name s) \<and> id_saved src s s')
     (filter (\<lambda>s. trim (step_name s) \<noteq> []) steps)
     (fst (normalizeStepsForSave src steps k))"
proof -
  define Q where "Q = (\<lambda>(s::step) (s'::step). step_name s' = trim (step_name s)
       \<and> id_saved src s s')"
  define N where "N = (\<lambda>(s::step) (s'::step). step_id s' = step_id s \<and> step_name s' = step_name s)"
  obtain mapped k1 where m: "map_uid (coerce_step trim src) steps k = (mapped, k1)"
    by (cases "map_uid (coerce_step trim src) steps k")
  define cleaned where "cleaned = filter (\<lambda>s. 0 < length (step_name s)) mapped"
  have res: "fst (normalizeStepsForSave src steps k) = number_steps cleaned"
    using m by (simp add: normalizeStepsForSave_def cleaned_def)
  have "list_all2 Q steps (fst (map_uid (coerce_step trim src) steps k))"
    unfolding Q_def by (rule map_uid_all2) (simp add: coerce_step_name coerce_step_id)
  then have "list_all2 Q steps mapped" using m by simp
  then have 1: "list_all2 Q (filter (\<lambda>s. trim (step_name s) \<noteq> []) steps) cleaned"
    unfolding cleaned_def by (rule list_all2_filter) (simp add: Q_def)
  have 2: "list_all2 N cleaned (number_steps cleaned)"
    unfolding N_def by (rule number_steps_all2)
  have QN: "step_name c = trim (step_name a) \<and> id_saved src a c" if "Q a b" and "N b c" for a b c
    using that by (auto simp: Q_def N_def id_saved_def)
  show ?thesis unfolding res using QN 1 2 by (rule list_all2_trans)
qed

lemma save_contiguous: "contiguous (fst (normalizeStepsForSave src steps k))"
  by (simp add: normalizeStepsForSave_def contiguous_number_steps split: prod.splits)

lemma save_names:
  assumes "s' \<in> set (fst (normalizeStepsForSave src steps k))"
  shows "trim (step_name s') = step_name s' \<and> step_name s' \<noteq> [] \<and> step_id s' \<noteq> []"
proof -
  from assms obtain i where i: "i < length (fst (normalizeStepsForSave src steps k))"
    and s': "s' = fst (normalizeStepsForSave src steps k) ! i"
    by (auto simp: in_set_conv_nth)
  define kept where "kept = filter (\<lambda>s. trim (step_name s) \<noteq> []) steps"
  have rel: "list_all2 (\<lambda>s s'. step_name s' = trim (step_name s) \<and> id_saved src s s')
      kept (fst (normalizeStepsForSave src steps k))"
    unfolding kept_def by (rule save_related)
  then have len: "length kept = length (fst (normalizeStepsForSave src steps k))"
    by (rule list_all2_lengthD)
  from rel i s' have n: "step_name s' = trim (step_name (kept ! i))"
    and d: "id_saved src (kept ! i) s'"
    by (auto simp: list_all2_conv_all_nth)
  have "kept ! i \<in> set kept" using i len by simp
  then have "trim (step_name (kept ! i)) \<noteq> []" by (simp add: kept_def)
  moreover have "step_id s' \<noteq> []"
    using d generated_nonempty [of src "step_id s'"] by (auto simp: id_saved_def split: if_splits)
  ultimately show ?thesis using n by (simp add: trim_idem)
qed




subsection \<open>Saving, then loading\<close>

lemma map_uid_fixed:
  assumes "\<And>x k. x \<in> set xs \<Longrightarrow> f x k = (g x, k)"
  shows "map_uid f xs k = (map g xs, k)"
  using assms by (induction xs arbitrary: k) auto

lemma parse_stored_step: "parse_step h src (stored_step s) k = (Inr s, k)"
  by (simp add: parse_step_def parse_object_def stored_step_def coalesce_def)

lemma coerce_step_fixed:
  assumes "step_id s \<noteq> []" and "isFinite (step_order s)"
  shows "coerce_step (\<lambda>n. n) src s k = (s, k)"
  using assms by (simp add: coerce_step_def)

lemma contiguous_nth:
  assumes "contiguous xs" and "i < length xs"
  shows "step_order (xs ! i) = Fin (of_nat (i + 1))"
proof -
  have "map step_order xs ! i = map (\<lambda>i. Fin (of_nat (i + 1))) [0..<length xs] ! i"
    using assms(1) by (simp add: contiguous_def)
  then show ?thesis using assms(2) by simp
qed

lemma contiguous_finite:
  assumes "contiguous xs" and "s \<in> set xs"
  shows "isFinite (step_order s)"
  using assms contiguous_nth [of xs] by (auto simp: in_set_conv_nth)

lemma contiguous_sorted:
  assumes "contiguous xs"
  shows "sorted (map (\<lambda>s. fin_value (step_order s)) xs)"
proof -
  have "map (\<lambda>s. fin_value (step_order s)) xs = map fin_value (map step_order xs)"
    by simp
  also have "\<dots> = map (\<lambda>i. of_nat (i + 1)) [0..<length xs]"
    using assms by (simp add: contiguous_def)
  finally have e: "map (\<lambda>s. fin_value (step_order s)) xs
      = map (\<lambda>i. of_nat (i + 1)) [0..<length xs]" .
  have "sorted (map (\<lambda>i. (of_nat (i + 1) :: rat)) [0..<length xs])"
    by (simp add: sorted_map sorted_wrt_iff_nth_less)
  then show ?thesis by (simp only: e)
qed

lemma number_steps_fixed:
  assumes "contiguous xs"
  shows "number_steps xs = xs"
proof (rule nth_equalityI)
  show "length (number_steps xs) = length xs" by (rule length_number_steps)
next
  fix i assume "i < length (number_steps xs)"
  then have i: "i < length xs" by (simp add: length_number_steps)
  then have "number_steps xs ! i = (xs ! i)\<lparr>step_order := Fin (of_nat (i + 1))\<rparr>"
    by (simp add: number_steps_def nth_enumerate_eq)
  also have "\<dots> = xs ! i" using contiguous_nth [OF assms i] by simp
  finally show "number_steps xs ! i = xs ! i" .
qed

lemma parse_stored_steps: "map_try (parse_step h src) (map stored_step xs) k = (Inr xs, k)"
  by (induction xs arbitrary: k) (auto simp: parse_stored_step)

lemma load_stored:
  assumes c: "contiguous xs"
    and ok: "\<And>s. s \<in> set xs \<Longrightarrow> trim (step_name s) \<noteq> [] \<and> step_id s \<noteq> []"
  shows "load_steps h src (map stored_step xs) k = (Inr xs, k)"
proof -
  have keep: "filter (\<lambda>s. trim (step_name s) \<noteq> []) xs = xs"
    using ok by (simp add: filter_id_conv)
  have co: "map_uid (coerce_step (\<lambda>n. n) src) xs j = (map (\<lambda>s. s) xs, j)" for j
    by (rule map_uid_fixed) (simp add: coerce_step_fixed ok contiguous_finite [OF c])
  have fin: "\<forall>y\<in>set xs. isFinite (step_order y)"
    using contiguous_finite [OF c] by blast
  have "array_sort (\<lambda>a b. js_sub (step_order a) (step_order b)) xs
        = sort_key (\<lambda>s. fin_value (step_order s)) xs"
    using fin by (rule array_sort_sort_key)
  also have "\<dots> = xs"
    using contiguous_sorted [OF c] by (rule sort_key_id_if_sorted)
  finally have so: "array_sort (\<lambda>a b. js_sub (step_order a) (step_order b)) xs = xs" .
  show ?thesis
    by (simp add: load_steps_def parse_stored_steps keep renumberFromOrder_def co so
        renumberByArrayOrder_def number_steps_fixed [OF c])
qed

lemma save_then_load:
  "load_steps h src' (map stored_step (fst (normalizeStepsForSave src steps k))) k'
   = (Inr (fst (normalizeStepsForSave src steps k)), k')"
proof (rule load_stored)
  show "contiguous (fst (normalizeStepsForSave src steps k))" by (rule save_contiguous)
next
  fix s assume "s \<in> set (fst (normalizeStepsForSave src steps k))"
  then show "trim (step_name s) \<noteq> [] \<and> step_id s \<noteq> []"
    using save_names [of s src steps k] by simp
qed

text \<open>
  Claim C4. Saving a step list and loading what was stored does not throw and gives the
  saved list again, so the names of the loaded steps, in order, are the names of the saved
  steps.
\<close>

theorem save_load_round_trip:
  "(\<exists>loaded.
      fst (load_steps h src' (map stored_step (fst (normalizeStepsForSave src steps k))) k')
        = Inr loaded
      \<and> map step_name loaded = map step_name (fst (normalizeStepsForSave src steps k)))
   \<and> fst (load_steps h src' (map stored_step (fst (normalizeStepsForSave src steps k))) k')
     = Inr (fst (normalizeStepsForSave src steps k))"
  by (simp add: save_then_load)

section \<open>Properties of the catalog\<close>

subsection \<open>Sorting with a comparator\<close>

lemma set_sort_insert: "set (sort_insert cmp x ys) = insert x (set ys)"
  by (induction ys) auto

lemma set_array_sort: "set (array_sort cmp xs) = set xs"
  by (induction xs) (auto simp: array_sort_def set_sort_insert)

lemma length_sort_insert: "length (sort_insert cmp x ys) = Suc (length ys)"
  by (induction ys) auto

lemma length_array_sort: "length (array_sort cmp xs) = length xs"
  by (induction xs) (auto simp: array_sort_def length_sort_insert)

lemma distinct_sort_insert:
  "distinct (map f (sort_insert cmp x ys)) = (f x \<notin> f ` set ys \<and> distinct (map f ys))"
  by (induction ys) (auto simp: set_sort_insert)

lemma distinct_array_sort: "distinct (map f (array_sort cmp xs)) = distinct (map f xs)"
proof (induction xs)
  case Nil
  then show ?case by (simp add: array_sort_def)
next
  case (Cons x xs)
  have "array_sort cmp (x # xs) = sort_insert cmp x (array_sort cmp xs)"
    by (simp add: array_sort_def)
  then show ?case using Cons by (simp add: distinct_sort_insert set_array_sort)
qed

lemma sorted_sort_insert:
  fixes f :: "'a \<Rightarrow> rat"
  assumes lt: "\<And>x y. f x < f y \<Longrightarrow> \<not> js_positive (cmp x y)"
    and gt: "\<And>x y. f y < f x \<Longrightarrow> js_positive (cmp x y)"
    and "sorted (map f ys)"
  shows "sorted (map f (sort_insert cmp x ys))"
  using assms(3)
proof (induction ys)
  case Nil
  then show ?case by simp
next
  case (Cons y ys)
  show ?case
  proof (cases "js_positive (cmp x y)")
    case True
    then have "f y \<le> f x" using lt [of x y] by force
    then show ?thesis using True Cons by (auto simp: set_sort_insert)
  next
    case False
    then have "f x \<le> f y" using gt [of y x] by force
    then show ?thesis using False Cons by auto
  qed
qed

lemma sorted_array_sort:
  fixes f :: "'a \<Rightarrow> rat"
  assumes lt: "\<And>x y. f x < f y \<Longrightarrow> \<not> js_positive (cmp x y)"
    and gt: "\<And>x y. f y < f x \<Longrightarrow> js_positive (cmp x y)"
  shows "sorted (map f (array_sort cmp xs))"
proof (induction xs)
  case Nil
  then show ?case by (simp add: array_sort_def)
next
  case (Cons x xs)
  have "array_sort cmp (x # xs) = sort_insert cmp x (array_sort cmp xs)"
    by (simp add: array_sort_def)
  then show ?case using sorted_sort_insert [OF lt gt Cons] by simp
qed

lemma ordered_sort_insert:
  assumes total: "\<And>x y. js_positive (cmp x y) \<Longrightarrow> \<not> js_positive (cmp y x)"
    and trans: "\<And>x y z. \<not> js_positive (cmp x y) \<Longrightarrow> \<not> js_positive (cmp y z)
                 \<Longrightarrow> \<not> js_positive (cmp x z)"
    and "sorted_wrt (\<lambda>a b. \<not> js_positive (cmp a b)) ys"
  shows "sorted_wrt (\<lambda>a b. \<not> js_positive (cmp a b)) (sort_insert cmp x ys)"
  using assms(3)
proof (induction ys)
  case Nil
  then show ?case by simp
next
  case (Cons y ys)
  show ?case
  proof (cases "js_positive (cmp x y)")
    case True
    then have "\<not> js_positive (cmp y x)" by (rule total)
    then show ?thesis using True Cons by (auto simp: set_sort_insert)
  next
    case False
    have "\<not> js_positive (cmp x z)" if "z \<in> set ys" for z
      using False Cons.prems that trans [of x y z] by auto
    then show ?thesis using False Cons by auto
  qed
qed

lemma ordered_array_sort:
  assumes total: "\<And>x y. js_positive (cmp x y) \<Longrightarrow> \<not> js_positive (cmp y x)"
    and trans: "\<And>x y z. \<not> js_positive (cmp x y) \<Longrightarrow> \<not> js_positive (cmp y z)
                 \<Longrightarrow> \<not> js_positive (cmp x z)"
  shows "sorted_wrt (\<lambda>a b. \<not> js_positive (cmp a b)) (array_sort cmp xs)"
proof (induction xs)
  case Nil
  then show ?case by (simp add: array_sort_def)
next
  case (Cons x xs)
  have "array_sort cmp (x # xs) = sort_insert cmp x (array_sort cmp xs)"
    by (simp add: array_sort_def)
  then show ?case using ordered_sort_insert [OF total trans Cons] by simp
qed

subsection \<open>The merged ids\<close>

lemma set_fold_set_add: "set (fold (\<lambda>i ids. set_add ids i) xs acc) = set acc \<union> set xs"
  by (induction xs arbitrary: acc) (auto simp: set_add_def)

lemma distinct_fold_set_add:
  "distinct acc \<Longrightarrow> distinct (fold (\<lambda>i ids. set_add ids i) xs acc)"
  by (induction xs arbitrary: acc) (auto simp: set_add_def)

lemma set_merged_ids:
  "set (merged_ids codesMap templatesMeta) = fst ` set codesMap \<union> fst ` set templatesMeta"
  by (simp add: merged_ids_def set_fold_set_add)

lemma distinct_merged_ids: "distinct (merged_ids codesMap templatesMeta)"
  by (simp add: merged_ids_def distinct_fold_set_add)

lemma row_id_work_type_row: "row_id (work_type_row codesMap templatesMeta i) = i"
  by (simp add: work_type_row_def Let_def)

lemma ids_workTypes:
  "set (map row_id (workTypes lc codesMap templatesMeta))
     = fst ` set codesMap \<union> fst ` set templatesMeta"
  "distinct (map row_id (workTypes lc codesMap templatesMeta))"
proof -
  have m: "map row_id (map (work_type_row codesMap templatesMeta) ids) = ids" for ids
    by (induction ids) (auto simp: row_id_work_type_row)
  have "set (map row_id (workTypes lc codesMap templatesMeta))
        = set (map row_id (map (work_type_row codesMap templatesMeta)
                      (merged_ids codesMap templatesMeta)))"
    unfolding workTypes_def by (simp only: set_map set_array_sort)
  also have "\<dots> = set (merged_ids codesMap templatesMeta)" by (simp only: m)
  finally show "set (map row_id (workTypes lc codesMap templatesMeta))
     = fst ` set codesMap \<union> fst ` set templatesMeta"
    by (simp only: set_merged_ids)
  show "distinct (map row_id (workTypes lc codesMap templatesMeta))"
    unfolding workTypes_def distinct_array_sort
    by (simp only: m distinct_merged_ids)
qed

lemma row_workTypes:
  assumes "r \<in> set (workTypes lc codesMap templatesMeta)"
  shows "r = work_type_row codesMap templatesMeta (row_id r)"
proof -
  from assms obtain i where "r = work_type_row codesMap templatesMeta i"
    by (auto simp: workTypes_def set_array_sort)
  then show ?thesis by (simp add: row_id_work_type_row)
qed

subsection \<open>The merged rows\<close>

lemma sort_order_Fin: "sort_order a = Fin (fin_value (sort_order a))"
  by (cases "row_order a") (simp_all add: sort_order_def)

lemma positive_row_compare:
  "js_positive (row_compare lc a b) =
     (fin_value (sort_order b) < fin_value (sort_order a)
      \<or> (fin_value (sort_order a) = fin_value (sort_order b)
          \<and> 0 < lc (row_label a) (row_label b)))"
proof -
  obtain x where x: "sort_order a = Fin x" using sort_order_Fin [of a] by blast
  obtain y where y: "sort_order b = Fin y" using sort_order_Fin [of b] by blast
  show ?thesis by (auto simp: row_compare_def Let_def x y)
qed

lemma workTypes_sorted_order:
  "sorted (map (\<lambda>r. fin_value (sort_order r)) (workTypes lc codesMap templatesMeta))"
  unfolding workTypes_def
  by (rule sorted_array_sort) (auto simp: positive_row_compare)

lemma workTypes_sorted_full:
  assumes total: "\<And>a b. 0 < lc a b \<Longrightarrow> lc b a \<le> 0"
    and trans: "\<And>a b c. lc a b \<le> 0 \<Longrightarrow> lc b c \<le> 0 \<Longrightarrow> lc a c \<le> 0"
  shows "sorted_wrt (\<lambda>a b. fin_value (sort_order a) < fin_value (sort_order b)
            \<or> (fin_value (sort_order a) = fin_value (sort_order b)
                \<and> lc (row_label a) (row_label b) \<le> 0))
          (workTypes lc codesMap templatesMeta)"
proof -
  have t: "\<not> js_positive (row_compare lc y x)" if "js_positive (row_compare lc x y)" for x y
    using that total [of "row_label x" "row_label y"]
    by (auto simp: positive_row_compare)
  have tr: "\<not> js_positive (row_compare lc x z)"
    if "\<not> js_positive (row_compare lc x y)" and "\<not> js_positive (row_compare lc y z)" for x y z
    using that trans [of "row_label x" "row_label y" "row_label z"]
    by (auto simp: positive_row_compare not_less)
  have "sorted_wrt (\<lambda>a b. \<not> js_positive (row_compare lc a b))
          (array_sort (row_compare lc)
             (map (work_type_row codesMap templatesMeta) (merged_ids codesMap templatesMeta)))"
    using t tr by (rule ordered_array_sort)
  then show ?thesis
    unfolding workTypes_def
    by (rule sorted_wrt_mono_rel [rotated]) (auto simp: positive_row_compare not_less)
qed

lemma template_only_row:
  assumes "r \<in> set (workTypes lc codesMap templatesMeta)"
    and "row_id r \<notin> fst ` set codesMap"
  shows "row_source r = Templates \<and> row_order r = Fin 999999 \<and> row_enabled r
         \<and> (\<exists>tm. map_of templatesMeta (row_id r) = Some tm \<and> row_label r = meta_title tm)"
proof -
  have r: "r = work_type_row codesMap templatesMeta (row_id r)"
    using assms(1) by (rule row_workTypes)
  have c: "map_of codesMap (row_id r) = None"
    using assms(2) by (simp add: map_of_eq_None_iff)
  have "row_id r \<in> set (map row_id (workTypes lc codesMap templatesMeta))"
    using assms(1) by simp
  then have "row_id r \<in> fst ` set templatesMeta"
    using assms(2) unfolding ids_workTypes(1) by blast
  then obtain tm where t: "map_of templatesMeta (row_id r) = Some tm"
    by (metis map_of_eq_None_iff not_Some_eq)
  have "row_source (work_type_row codesMap templatesMeta (row_id r)) = Templates"
    and "row_order (work_type_row codesMap templatesMeta (row_id r)) = Fin 999999"
    and "row_enabled (work_type_row codesMap templatesMeta (row_id r))"
    and "row_label (work_type_row codesMap templatesMeta (row_id r)) = meta_title tm"
    using c t by (simp_all add: work_type_row_def)
  then show ?thesis using r t by metis
qed

lemma template_only_after:
  assumes i: "i < length (workTypes lc codesMap templatesMeta)"
    and j: "j < length (workTypes lc codesMap templatesMeta)"
    and ti: "row_id (workTypes lc codesMap templatesMeta ! i) \<notin> fst ` set codesMap"
    and cj: "row_order (workTypes lc codesMap templatesMeta ! j) = Fin n" "n < 999999"
  shows "j < i"
proof (rule ccontr)
  assume "\<not> j < i"
  then have le: "i \<le> j" by simp
  define rows where "rows = workTypes lc codesMap templatesMeta"
  have "sorted (map (\<lambda>r. fin_value (sort_order r)) rows)"
    unfolding rows_def by (rule workTypes_sorted_order)
  then have "map (\<lambda>r. fin_value (sort_order r)) rows ! i
             \<le> map (\<lambda>r. fin_value (sort_order r)) rows ! j"
    using le j by (simp add: sorted_iff_nth_mono rows_def)
  then have "fin_value (sort_order (rows ! i)) \<le> fin_value (sort_order (rows ! j))"
    using i j by (simp add: rows_def)
  moreover have "rows ! i \<in> set (workTypes lc codesMap templatesMeta)"
    using i by (simp add: rows_def)
  then have "row_order (rows ! i) = Fin 999999"
    using template_only_row [of "rows ! i" lc codesMap templatesMeta] ti
    by (simp add: rows_def)
  ultimately show False using cj by (simp add: sort_order_def rows_def)
qed

lemma template_meta_title:
  "meta_title (template_meta fmt (i, d)) = (case tpl_title d of JStr s \<Rightarrow> s | _ \<Rightarrow> i)"
  by (cases "tpl_title d") (simp_all add: template_meta_def)

text \<open>
  Claim C7, as amended. The rows of the merged catalog have the ids of the code map and
  of the template map, each once. A row whose id only the template map holds has the
  source \<open>Templates\<close>, the order 999999 and the template's title as label, and that title
  is the id when the stored title is not a string. The rows are sorted by order (999999
  for an order that is not finite), so such a row stands behind every row whose order is
  less than 999999; and when the label comparison is a total preorder, rows of equal order
  are sorted by it.
\<close>

theorem catalog_merge:
  "set (map row_id (workTypes lc codesMap templatesMeta))
     = fst ` set codesMap \<union> fst ` set templatesMeta
   \<and> distinct (map row_id (workTypes lc codesMap templatesMeta))
   \<and> (\<forall>r\<in>set (workTypes lc codesMap templatesMeta). row_id r \<notin> fst ` set codesMap \<longrightarrow>
         row_source r = Templates \<and> row_order r = Fin 999999
         \<and> (\<exists>tm. map_of templatesMeta (row_id r) = Some tm \<and> row_label r = meta_title tm))
   \<and> meta_title (template_meta fmt (i, d)) = (case tpl_title d of JStr s \<Rightarrow> s | _ \<Rightarrow> i)
   \<and> sorted (map (\<lambda>r. fin_value (sort_order r)) (workTypes lc codesMap templatesMeta))
   \<and> (\<forall>p q n. p < length (workTypes lc codesMap templatesMeta)
         \<and> q < length (workTypes lc codesMap templatesMeta)
         \<and> row_id (workTypes lc codesMap templatesMeta ! p) \<notin> fst ` set codesMap
         \<and> row_order (workTypes lc codesMap templatesMeta ! q) = Fin n \<and> n < 999999
         \<longrightarrow> q < p)
   \<and> ((\<forall>a b. 0 < lc a b \<longrightarrow> lc b a \<le> 0) \<and> (\<forall>a b c. lc a b \<le> 0 \<and> lc b c \<le> 0 \<longrightarrow> lc a c \<le> 0)
        \<longrightarrow> sorted_wrt (\<lambda>a b. fin_value (sort_order a) < fin_value (sort_order b)
                \<or> (fin_value (sort_order a) = fin_value (sort_order b)
                    \<and> lc (row_label a) (row_label b) \<le> 0))
              (workTypes lc codesMap templatesMeta))"
proof (intro conjI ballI allI impI)
  show "set (map row_id (workTypes lc codesMap templatesMeta))
     = fst ` set codesMap \<union> fst ` set templatesMeta"
    by (rule ids_workTypes(1))
  show "distinct (map row_id (workTypes lc codesMap templatesMeta))"
    by (rule ids_workTypes(2))
  show "meta_title (template_meta fmt (i, d)) = (case tpl_title d of JStr s \<Rightarrow> s | _ \<Rightarrow> i)"
    by (rule template_meta_title)
  show "sorted (map (\<lambda>r. fin_value (sort_order r)) (workTypes lc codesMap templatesMeta))"
    by (rule workTypes_sorted_order)
next
  fix r
  assume "r \<in> set (workTypes lc codesMap templatesMeta)" and "row_id r \<notin> fst ` set codesMap"
  then have t: "row_source r = Templates \<and> row_order r = Fin 999999 \<and> row_enabled r
         \<and> (\<exists>tm. map_of templatesMeta (row_id r) = Some tm \<and> row_label r = meta_title tm)"
    by (rule template_only_row)
  from t show "row_source r = Templates" by simp
  from t show "row_order r = Fin 999999" by simp
  from t show "\<exists>tm. map_of templatesMeta (row_id r) = Some tm \<and> row_label r = meta_title tm"
    by simp
next
  fix p q n
  assume "p < length (workTypes lc codesMap templatesMeta)
         \<and> q < length (workTypes lc codesMap templatesMeta)
         \<and> row_id (workTypes lc codesMap templatesMeta ! p) \<notin> fst ` set codesMap
         \<and> row_order (workTypes lc codesMap templatesMeta ! q) = Fin n \<and> n < 999999"
  then show "q < p" using template_only_after [of p lc codesMap templatesMeta q n] by simp
next
  assume a: "(\<forall>a b. 0 < lc a b \<longrightarrow> lc b a \<le> 0)
      \<and> (\<forall>a b c. lc a b \<le> 0 \<and> lc b c \<le> 0 \<longrightarrow> lc a c \<le> 0)"
  show "sorted_wrt (\<lambda>a b. fin_value (sort_order a) < fin_value (sort_order b)
                \<or> (fin_value (sort_order a) = fin_value (sort_order b)
                    \<and> lc (row_label a) (row_label b) \<le> 0))
              (workTypes lc codesMap templatesMeta)"
    by (rule workTypes_sorted_full) (use a in blast)+
qed

theorem catalog_merge_witness:
  "map (\<lambda>r. (row_id r, row_source r, row_order r, row_label r))
     (workTypes (\<lambda>a b. int (length a) - int (length b))
        [(''c'', \<lparr>code_label = ''Cc'', code_order = Fin 999999, code_enabled = True\<rparr>)]
        [(''t'', \<lparr>meta_id = ''t'', meta_title = ''T'', meta_updatedAtLabel = []\<rparr>),
         (''c'', \<lparr>meta_id = ''c'', meta_title = ''C'', meta_updatedAtLabel = []\<rparr>)])
   = [(''t'', Templates, Fin 999999, ''T''), (''c'', Both, Fin 999999, ''Cc'')]
   \<and> sorted_wrt (\<lambda>a b. fin_value (sort_order a) < fin_value (sort_order b)
                \<or> (fin_value (sort_order a) = fin_value (sort_order b)
                    \<and> int (length (row_label a)) - int (length (row_label b)) \<le> 0))
     (workTypes (\<lambda>a b. int (length a) - int (length b))
        [(''c'', \<lparr>code_label = ''Cc'', code_order = Fin 999999, code_enabled = True\<rparr>)]
        [(''t'', \<lparr>meta_id = ''t'', meta_title = ''T'', meta_updatedAtLabel = []\<rparr>),
         (''c'', \<lparr>meta_id = ''c'', meta_title = ''C'', meta_updatedAtLabel = []\<rparr>)])"
proof -
  have 1: "\<forall>a b. 0 < int (length (a::string)) - int (length (b::string))
             \<longrightarrow> int (length b) - int (length a) \<le> 0"
    by simp
  have 2: "\<forall>a b c. int (length (a::string)) - int (length (b::string)) \<le> 0
             \<and> int (length b) - int (length (c::string)) \<le> 0
             \<longrightarrow> int (length a) - int (length c) \<le> 0"
    by simp
  have 3: "map (\<lambda>r. (row_id r, row_source r, row_order r, row_label r))
     (workTypes (\<lambda>a b. int (length a) - int (length b))
        [(''c'', \<lparr>code_label = ''Cc'', code_order = Fin 999999, code_enabled = True\<rparr>)]
        [(''t'', \<lparr>meta_id = ''t'', meta_title = ''T'', meta_updatedAtLabel = []\<rparr>),
         (''c'', \<lparr>meta_id = ''c'', meta_title = ''C'', meta_updatedAtLabel = []\<rparr>)])
   = [(''t'', Templates, Fin 999999, ''T''), (''c'', Both, Fin 999999, ''Cc'')]"
    by (simp add: workTypes_def merged_ids_def set_add_def work_type_row_def array_sort_def
        row_compare_def sort_order_def)
  from catalog_merge [of "\<lambda>a b. int (length a) - int (length b)"
        "[(''c'', \<lparr>code_label = ''Cc'', code_order = Fin 999999, code_enabled = True\<rparr>)]"
        "[(''t'', \<lparr>meta_id = ''t'', meta_title = ''T'', meta_updatedAtLabel = []\<rparr>),
          (''c'', \<lparr>meta_id = ''c'', meta_title = ''C'', meta_updatedAtLabel = []\<rparr>)]"]
    1 2 3
  show ?thesis by blast
qed

text \<open>
  The claim as it is written fails for a code entry whose order is not less than 999999:
  the row of the template t, which has no code entry, stands before the row of the code
  entry c.
\<close>

theorem catalog_merge_counterexample:
  "map (\<lambda>r. (row_id r, row_source r, row_order r))
     (workTypes (\<lambda>a b. 0)
        [(''c'', \<lparr>code_label = ''C'', code_order = Fin 1000000, code_enabled = True\<rparr>)]
        [(''t'', \<lparr>meta_id = ''t'', meta_title = ''T'', meta_updatedAtLabel = []\<rparr>)])
   = [(''t'', Templates, Fin 999999), (''c'', Codes, Fin 1000000)]"
  by (simp add: workTypes_def merged_ids_def set_add_def work_type_row_def array_sort_def
      row_compare_def sort_order_def)

section \<open>Properties of the page\<close>

lemma map_of_map_set: "map_of (map_set m k v) k = Some v"
proof (cases "k \<in> fst ` set m")
  case True
  have "k \<in> fst ` set m \<Longrightarrow>
        map_of (map (\<lambda>(k', v'). if k' = k then (k', v) else (k', v')) m) k = Some v"
    by (induction m) auto
  with True show ?thesis by (simp add: map_set_def)
next
  case False
  then have "map_of m k = None" by (simp add: map_of_eq_None_iff)
  with False show ?thesis by (simp add: map_set_def map_add_def)
qed

lemma map_of_map_set_other: "k' \<noteq> k \<Longrightarrow> map_of (map_set m k v) k' = map_of m k'"
proof (cases "k \<in> fst ` set m")
  case True
  assume n: "k' \<noteq> k"
  have "map_of (map (\<lambda>(a, b). if a = k then (a, v) else (a, b)) m) k' = map_of m k'"
    using n by (induction m) auto
  with True show ?thesis by (simp add: map_set_def)
next
  case False
  assume "k' \<noteq> k"
  with False show ?thesis by (simp add: map_set_def map_add_def split: option.splits)
qed

lemma maxOrder_Max:
  "maxOrder rows =
     (if filter isFinite (map row_order rows) = [] then 0
      else Max (fin_value ` {n \<in> set (map row_order rows). isFinite n}))"
proof (cases "filter isFinite (map row_order rows)")
  case Nil
  then show ?thesis by (simp add: maxOrder_def)
next
  case (Cons n ns)
  have "fold max (map fin_value ns) (fin_value n) = Max (set (fin_value n # map fin_value ns))"
    by (rule Max.set_eq_fold [symmetric])
  also have "\<dots> = Max (fin_value ` set (filter isFinite (map row_order rows)))"
    by (simp add: Cons)
  also have "set (filter isFinite (map row_order rows))
             = {n \<in> set (map row_order rows). isFinite n}"
    by auto
  finally show ?thesis using Cons by (simp add: maxOrder_def)
qed

lemma maxOrder_upper:
  assumes "r \<in> set rows" and "isFinite (row_order r)"
  shows "fin_value (row_order r) \<le> maxOrder rows"
proof -
  have ne: "filter isFinite (map row_order rows) \<noteq> []"
    using assms by (auto simp: filter_empty_conv)
  have "fin_value (row_order r) \<in> fin_value ` {n \<in> set (map row_order rows). isFinite n}"
    using assms by auto
  then have "fin_value (row_order r) \<le> Max (fin_value ` {n \<in> set (map row_order rows). isFinite n})"
    by (intro Max_ge) auto
  then show ?thesis using ne by (simp add: maxOrder_Max)
qed

lemma maxOrder_attained:
  assumes "filter isFinite (map row_order rows) \<noteq> []"
  shows "\<exists>r\<in>set rows. row_order r = Fin (maxOrder rows)"
proof -
  let ?S = "fin_value ` {n \<in> set (map row_order rows). isFinite n}"
  have "?S \<noteq> {}" using assms by (auto simp: filter_empty_conv)
  then have "Max ?S \<in> ?S" by (intro Max_in) auto
  then obtain n where n: "n \<in> set (map row_order rows)" "isFinite n" "Max ?S = fin_value n"
    by auto
  then obtain r where r: "r \<in> set rows" "row_order r = n" by auto
  have "n = Fin (fin_value n)" using n(2) by (rule isFinite_Fin)
  then have "row_order r = Fin (maxOrder rows)"
    using assms n(3) r(2) by (simp add: maxOrder_Max)
  then show ?thesis using r(1) by blast
qed

lemma addWorkType_success:
  assumes "requireLogin pg" and "trim (page_newWorkLabel pg) \<noteq> []"
    and "writeOk nt 0" and "writeOk nt 1"
  shows "addWorkType nt pg w =
     (loadTemplatesMeta nt 0
        (w\<lparr>codes_col := map_set (codes_col w) (autoId nt)
              \<lparr>cd_label = JStr (trim (page_newWorkLabel pg)),
               cd_order = JNum (to_double (maxOrder (workTypes (localeCompare nt)
                                       (page_codesMap pg) (page_templatesMeta pg)) + 1)),
               cd_enabled = JBool True,
               cd_createdAt = Some (serverTime nt 0),
               cd_updatedAt = Some (serverTime nt 0)\<rparr>,
            templates_col := map_set (templates_col w) (autoId nt)
              \<lparr>tpl_workTypeId = JStr (autoId nt),
               tpl_title = JStr (trim (page_newWorkLabel pg)),
               tpl_steps = Some [],
               tpl_updatedAt = Some (serverTime nt 1)\<rparr>\<rparr>)
        (pg\<lparr>page_newWorkLabel := [], page_workTypeId := autoId nt\<rparr>),
      w\<lparr>codes_col := map_set (codes_col w) (autoId nt)
              \<lparr>cd_label = JStr (trim (page_newWorkLabel pg)),
               cd_order = JNum (to_double (maxOrder (workTypes (localeCompare nt)
                                       (page_codesMap pg) (page_templatesMeta pg)) + 1)),
               cd_enabled = JBool True,
               cd_createdAt = Some (serverTime nt 0),
               cd_updatedAt = Some (serverTime nt 0)\<rparr>,
            templates_col := map_set (templates_col w) (autoId nt)
              \<lparr>tpl_workTypeId = JStr (autoId nt),
               tpl_title = JStr (trim (page_newWorkLabel pg)),
               tpl_steps = Some [],
               tpl_updatedAt = Some (serverTime nt 1)\<rparr>\<rparr>,
      [])"
  using assms by (simp add: addWorkType_def Let_def)

lemma addWorkType_not_logged_in:
  "\<not> requireLogin pg \<Longrightarrow> addWorkType nt pg w = (pg, w, [LoginRequired])"
  by (simp add: addWorkType_def)

lemma maxOrder_plus_one_exact:
  assumes "maxOrder rows \<in> \<int>" and "\<bar>maxOrder rows + 1\<bar> \<le> 2 ^ 53"
  shows "to_double (maxOrder rows + 1) = Fin (maxOrder rows + 1)"
  using assms by (intro to_double_Ints) auto

lemma orders_without_template_rows:
  assumes sub: "fst ` set templatesMeta \<subseteq> fst ` set codesMap"
    and d: "distinct (map fst codesMap)"
  shows "set (map row_order (workTypes lc codesMap templatesMeta))
         = set (map (\<lambda>c. code_order (snd c)) codesMap)"
proof -
  have ids: "set (merged_ids codesMap templatesMeta) = fst ` set codesMap"
    using sub by (auto simp: set_merged_ids)
  have "set (map row_order (workTypes lc codesMap templatesMeta))
        = (\<lambda>i. row_order (work_type_row codesMap templatesMeta i)) ` fst ` set codesMap"
    by (simp add: workTypes_def set_array_sort ids image_image)
  also have "\<dots> = (\<lambda>c. code_order (snd c)) ` set codesMap"
  proof -
    have "row_order (work_type_row codesMap templatesMeta (fst c)) = code_order (snd c)"
      if "c \<in> set codesMap" for c
    proof -
      have "map_of codesMap (fst c) = Some (snd c)"
        using d that by (simp add: map_of_eq_Some_iff)
      then show ?thesis by (simp add: work_type_row_def)
    qed
    then show ?thesis by (auto simp: image_image intro!: image_cong)
  qed
  finally show ?thesis by simp
qed

lemma maxOrder_without_template_rows:
  assumes "fst ` set templatesMeta \<subseteq> fst ` set codesMap"
    and "distinct (map fst codesMap)"
  shows "maxOrder (workTypes lc codesMap templatesMeta) =
     (if {n \<in> set (map (\<lambda>c. code_order (snd c)) codesMap). isFinite n} = {} then 0
      else Max (fin_value ` {n \<in> set (map (\<lambda>c. code_order (snd c)) codesMap). isFinite n}))"
proof -
  have e: "(filter isFinite xs = []) = ({n \<in> set xs. isFinite n} = {})" for xs
    by (auto simp: filter_empty_conv)
  show ?thesis
    unfolding maxOrder_Max e orders_without_template_rows [OF assms] by simp
qed

text \<open>
  Claim C8, as amended. When the user is logged in (the uid is neither \<^verbatim>\<open>null\<close> nor the
  empty string), the entered label does not trim to the empty string and both writes
  succeed, adding a work type stores, under the id that the store generated, a code
  document with the trimmed label, enabled, whose order is the maximum order plus 1 as
  the language adds numbers, and a template document with the same id, the trimmed label
  as title and no steps. The sum is the double nearest to the exact one, and is the exact
  one when the maximum order is an integer and the sum is at most \<open>2 ^ 53\<close> in absolute
  value. The maximum order is the greatest finite order among the rows of the merged
  catalog (where a template without a code entry has the order 999999), and 0 when no row
  has a finite order; when every template has a code entry it is the greatest finite
  order among the code entries.
\<close>

theorem catalog_add:
  assumes "requireLogin pg" and "trim (page_newWorkLabel pg) \<noteq> []"
    and "writeOk nt 0" and "writeOk nt 1"
  shows "map_of (codes_col (fst (snd (addWorkType nt pg w)))) (autoId nt)
       = Some \<lparr>cd_label = JStr (trim (page_newWorkLabel pg)),
               cd_order = JNum (to_double (maxOrder (workTypes (localeCompare nt)
                                       (page_codesMap pg) (page_templatesMeta pg)) + 1)),
               cd_enabled = JBool True,
               cd_createdAt = Some (serverTime nt 0),
               cd_updatedAt = Some (serverTime nt 0)\<rparr>
     \<and> map_of (templates_col (fst (snd (addWorkType nt pg w)))) (autoId nt)
       = Some \<lparr>tpl_workTypeId = JStr (autoId nt),
               tpl_title = JStr (trim (page_newWorkLabel pg)),
               tpl_steps = Some [],
               tpl_updatedAt = Some (serverTime nt 1)\<rparr>
     \<and> snd (snd (addWorkType nt pg w)) = []
     \<and> (maxOrder (workTypes (localeCompare nt) (page_codesMap pg) (page_templatesMeta pg)) \<in> \<int>
          \<and> \<bar>maxOrder (workTypes (localeCompare nt) (page_codesMap pg) (page_templatesMeta pg))
               + 1\<bar> \<le> 2 ^ 53 \<longrightarrow>
        to_double (maxOrder (workTypes (localeCompare nt) (page_codesMap pg)
                     (page_templatesMeta pg)) + 1)
          = Fin (maxOrder (workTypes (localeCompare nt) (page_codesMap pg)
                   (page_templatesMeta pg)) + 1))
     \<and> (\<forall>r\<in>set (workTypes (localeCompare nt) (page_codesMap pg) (page_templatesMeta pg)).
           isFinite (row_order r) \<longrightarrow>
           fin_value (row_order r)
             \<le> maxOrder (workTypes (localeCompare nt) (page_codesMap pg) (page_templatesMeta pg)))
     \<and> (if filter isFinite (map row_order
               (workTypes (localeCompare nt) (page_codesMap pg) (page_templatesMeta pg))) = []
         then maxOrder (workTypes (localeCompare nt) (page_codesMap pg) (page_templatesMeta pg)) = 0
         else \<exists>r\<in>set (workTypes (localeCompare nt) (page_codesMap pg) (page_templatesMeta pg)).
                row_order r = Fin (maxOrder (workTypes (localeCompare nt) (page_codesMap pg)
                                       (page_templatesMeta pg))))
     \<and> (fst ` set (page_templatesMeta pg) \<subseteq> fst ` set (page_codesMap pg)
          \<and> distinct (map fst (page_codesMap pg)) \<longrightarrow>
        maxOrder (workTypes (localeCompare nt) (page_codesMap pg) (page_templatesMeta pg)) =
          (if {n \<in> set (map (\<lambda>c. code_order (snd c)) (page_codesMap pg)). isFinite n} = {}
           then 0
           else Max (fin_value `
                  {n \<in> set (map (\<lambda>c. code_order (snd c)) (page_codesMap pg)). isFinite n})))"
proof -
  have m: "fst ` set (page_templatesMeta pg) \<subseteq> fst ` set (page_codesMap pg)
          \<and> distinct (map fst (page_codesMap pg)) \<longrightarrow>
        maxOrder (workTypes (localeCompare nt) (page_codesMap pg) (page_templatesMeta pg)) =
          (if {n \<in> set (map (\<lambda>c. code_order (snd c)) (page_codesMap pg)). isFinite n} = {}
           then 0
           else Max (fin_value `
                  {n \<in> set (map (\<lambda>c. code_order (snd c)) (page_codesMap pg)). isFinite n}))"
    using maxOrder_without_template_rows
      [of "page_templatesMeta pg" "page_codesMap pg" "localeCompare nt"]
    by blast
  have "\<forall>r\<in>set (workTypes (localeCompare nt) (page_codesMap pg) (page_templatesMeta pg)).
           isFinite (row_order r) \<longrightarrow>
           fin_value (row_order r)
             \<le> maxOrder (workTypes (localeCompare nt) (page_codesMap pg) (page_templatesMeta pg))"
    using maxOrder_upper by blast
  moreover have "if filter isFinite (map row_order
               (workTypes (localeCompare nt) (page_codesMap pg) (page_templatesMeta pg))) = []
         then maxOrder (workTypes (localeCompare nt) (page_codesMap pg) (page_templatesMeta pg)) = 0
         else \<exists>r\<in>set (workTypes (localeCompare nt) (page_codesMap pg) (page_templatesMeta pg)).
                row_order r = Fin (maxOrder (workTypes (localeCompare nt) (page_codesMap pg)
                                       (page_templatesMeta pg)))"
    using maxOrder_attained [of "workTypes (localeCompare nt) (page_codesMap pg) (page_templatesMeta pg)"]
    by (simp add: maxOrder_def)
  moreover have "map_of (codes_col (fst (snd (addWorkType nt pg w)))) (autoId nt)
       = Some \<lparr>cd_label = JStr (trim (page_newWorkLabel pg)),
               cd_order = JNum (to_double (maxOrder (workTypes (localeCompare nt)
                                       (page_codesMap pg) (page_templatesMeta pg)) + 1)),
               cd_enabled = JBool True,
               cd_createdAt = Some (serverTime nt 0),
               cd_updatedAt = Some (serverTime nt 0)\<rparr>"
    by (simp add: addWorkType_success [OF assms] map_of_map_set)
  moreover have "map_of (templates_col (fst (snd (addWorkType nt pg w)))) (autoId nt)
       = Some \<lparr>tpl_workTypeId = JStr (autoId nt),
               tpl_title = JStr (trim (page_newWorkLabel pg)),
               tpl_steps = Some [],
               tpl_updatedAt = Some (serverTime nt 1)\<rparr>"
    by (simp add: addWorkType_success [OF assms] map_of_map_set)
  moreover have "snd (snd (addWorkType nt pg w)) = []"
    by (simp add: addWorkType_success [OF assms])
  moreover have "maxOrder (workTypes (localeCompare nt) (page_codesMap pg) (page_templatesMeta pg)) \<in> \<int>
          \<and> \<bar>maxOrder (workTypes (localeCompare nt) (page_codesMap pg) (page_templatesMeta pg))
               + 1\<bar> \<le> 2 ^ 53 \<longrightarrow>
        to_double (maxOrder (workTypes (localeCompare nt) (page_codesMap pg)
                     (page_templatesMeta pg)) + 1)
          = Fin (maxOrder (workTypes (localeCompare nt) (page_codesMap pg)
                   (page_templatesMeta pg)) + 1)"
    using maxOrder_plus_one_exact by blast
  ultimately show ?thesis using m by blast
qed


text \<open>
  The claim as it is written fails when a template has no code entry: the only code entry
  has the order 2, and the new code entry is stored with the order 1000000.
\<close>

theorem catalog_add_counterexample:
  "map_of (codes_col (fst (snd (addWorkType
      \<lparr>autoId = ''n1'', writeOk = (\<lambda>n. True), readOk = (\<lambda>n. True),
        serverTime = (\<lambda>n. 7), toLocaleString = (\<lambda>t. ''d''), localeCompare = (\<lambda>a b. 0),
        entropy_src = (\<lambda>n. (''r'', ''t''))\<rparr>
      \<lparr>page_userUid = Some ''u'',
        page_codesMap = [(''c'', \<lparr>code_label = ''C'', code_order = Fin 2, code_enabled = True\<rparr>)],
        page_templatesMeta = [(''t'', \<lparr>meta_id = ''t'', meta_title = ''T'', meta_updatedAtLabel = []\<rparr>)],
        page_loadingTemplatesMeta = False, page_workTypeId = ''c'', page_newWorkLabel = '' New '',
        page_title = ''C'', page_steps = [], page_lastLoadedAt = NeverLoaded,
        page_loading = False, page_saving = False\<rparr>
      \<lparr>codes_col = [], templates_col = [], uid_calls = 0\<rparr>)))) ''n1''
   = Some \<lparr>cd_label = JStr ''New'', cd_order = JNum (Fin 1000000), cd_enabled = JBool True,
            cd_createdAt = Some 7, cd_updatedAt = Some 7\<rparr>"
  by (simp add: addWorkType_def Let_def trim_def js_space_def workTypes_def merged_ids_def
      set_add_def work_type_row_def array_sort_def row_compare_def sort_order_def
      maxOrder_def map_set_def loadTemplatesMeta_def requireLogin_def to_double_Ints)

theorem catalog_add_witness:
  "map_of (codes_col (fst (snd (addWorkType
      \<lparr>autoId = ''n1'', writeOk = (\<lambda>n. True), readOk = (\<lambda>n. True),
        serverTime = (\<lambda>n. 7), toLocaleString = (\<lambda>t. ''d''), localeCompare = (\<lambda>a b. 0),
        entropy_src = (\<lambda>n. (''r'', ''t''))\<rparr>
      \<lparr>page_userUid = Some ''u'',
        page_codesMap = [(''c'', \<lparr>code_label = ''C'', code_order = Fin 2, code_enabled = True\<rparr>)],
        page_templatesMeta = [(''c'', \<lparr>meta_id = ''c'', meta_title = ''C'', meta_updatedAtLabel = []\<rparr>)],
        page_loadingTemplatesMeta = False, page_workTypeId = ''c'', page_newWorkLabel = '' New '',
        page_title = ''C'', page_steps = [], page_lastLoadedAt = NeverLoaded,
        page_loading = False, page_saving = False\<rparr>
      \<lparr>codes_col = [], templates_col = [], uid_calls = 0\<rparr>)))) ''n1''
   = Some \<lparr>cd_label = JStr ''New'', cd_order = JNum (Fin 3), cd_enabled = JBool True,
            cd_createdAt = Some 7, cd_updatedAt = Some 7\<rparr>
   \<and> map_of (templates_col (fst (snd (addWorkType
      \<lparr>autoId = ''n1'', writeOk = (\<lambda>n. True), readOk = (\<lambda>n. True),
        serverTime = (\<lambda>n. 7), toLocaleString = (\<lambda>t. ''d''), localeCompare = (\<lambda>a b. 0),
        entropy_src = (\<lambda>n. (''r'', ''t''))\<rparr>
      \<lparr>page_userUid = Some ''u'',
        page_codesMap = [(''c'', \<lparr>code_label = ''C'', code_order = Fin 2, code_enabled = True\<rparr>)],
        page_templatesMeta = [(''c'', \<lparr>meta_id = ''c'', meta_title = ''C'', meta_updatedAtLabel = []\<rparr>)],
        page_loadingTemplatesMeta = False, page_workTypeId = ''c'', page_newWorkLabel = '' New '',
        page_title = ''C'', page_steps = [], page_lastLoadedAt = NeverLoaded,
        page_loading = False, page_saving = False\<rparr>
      \<lparr>codes_col = [], templates_col = [], uid_calls = 0\<rparr>)))) ''n1''
   = Some \<lparr>tpl_workTypeId = JStr ''n1'', tpl_title = JStr ''New'', tpl_steps = Some [],
            tpl_updatedAt = Some 7\<rparr>"
  using catalog_add [of
      "\<lparr>page_userUid = Some ''u'',
        page_codesMap = [(''c'', \<lparr>code_label = ''C'', code_order = Fin 2, code_enabled = True\<rparr>)],
        page_templatesMeta = [(''c'', \<lparr>meta_id = ''c'', meta_title = ''C'', meta_updatedAtLabel = []\<rparr>)],
        page_loadingTemplatesMeta = False, page_workTypeId = ''c'', page_newWorkLabel = '' New '',
        page_title = ''C'', page_steps = [], page_lastLoadedAt = NeverLoaded,
        page_loading = False, page_saving = False\<rparr>"
      "\<lparr>autoId = ''n1'', writeOk = (\<lambda>n. True), readOk = (\<lambda>n. True),
        serverTime = (\<lambda>n. 7), toLocaleString = (\<lambda>t. ''d''), localeCompare = (\<lambda>a b. 0),
        entropy_src = (\<lambda>n. (''r'', ''t''))\<rparr>"
      "\<lparr>codes_col = [], templates_col = [], uid_calls = 0\<rparr>"]
  by (simp add: trim_def js_space_def workTypes_def merged_ids_def
      set_add_def work_type_row_def array_sort_def row_compare_def sort_order_def
      maxOrder_def requireLogin_def to_double_Ints)

subsection \<open>Saving leaves the editor's state alone\<close>

lemma loadTemplatesMeta_editor:
  "page_steps (loadTemplatesMeta nt n w pg) = page_steps pg"
  "page_title (loadTemplatesMeta nt n w pg) = page_title pg"
  by (simp_all add: loadTemplatesMeta_def)

lemma onSaveTemplate_cases:
  obtains
    (login) "\<not> requireLogin pg" "onSaveTemplate nt pg w = (pg, w, [LoginRequired])"
  | (failed) w' where "requireLogin pg"
      "onSaveTemplate nt pg w = (pg\<lparr>page_saving := False\<rparr>, w', [SaveFailed])"
      "\<not> writeOk nt 0 \<longrightarrow> templates_col w' = templates_col w \<and> codes_col w' = codes_col w"
  | (saved) w' pg' al where "requireLogin pg" "writeOk nt 0"
      "onSaveTemplate nt pg w = (pg', w', al)" "hd al = Saved"
      "page_steps pg' = page_steps pg" "page_title pg' = page_title pg"
proof -
  obtain fixedSteps k1 where n:
    "normalizeStepsForSave (entropy_src nt) (page_steps pg) (uid_calls w) = (fixedSteps, k1)"
    by (cases "normalizeStepsForSave (entropy_src nt) (page_steps pg) (uid_calls w)")
  show ?thesis
  proof (cases "\<not> requireLogin pg")
    case True
    then show ?thesis using login by (simp add: onSaveTemplate_def)
  next
    case user: False
    show ?thesis
    proof (cases "writeOk nt 0")
      case False
      then show ?thesis using user n failed by (simp add: onSaveTemplate_def)
    next
      case w0: True
      show ?thesis
      proof (cases "page_workTypeId pg \<in> fst ` set (page_codesMap pg) \<and> \<not> writeOk nt 1")
        case True
        then show ?thesis using user n w0 failed by (simp add: onSaveTemplate_def Let_def)
      next
        case False
        obtain pg' w' al where r: "onSaveTemplate nt pg w = (pg', w', al)"
          by (cases "onSaveTemplate nt pg w") auto
        have "hd al = Saved \<and> page_steps pg' = page_steps pg \<and> page_title pg' = page_title pg"
          using r user n w0 False
          by (auto simp: onSaveTemplate_def Let_def loadTemplatesMeta_editor
              split: option.splits if_splits)
        then show ?thesis using saved user w0 r by blast
      qed
    qed
  qed
qed

lemma onSaveTemplate_editor:
  "page_steps (fst (onSaveTemplate nt pg w)) = page_steps pg
   \<and> page_title (fst (onSaveTemplate nt pg w)) = page_title pg"
  by (rule onSaveTemplate_cases [where pg = pg and nt = nt and w = w]) simp_all

lemma onSaveTemplate_write_failed:
  assumes "snd (snd (onSaveTemplate nt pg w)) = [SaveFailed]"
  shows "fst (onSaveTemplate nt pg w) = pg\<lparr>page_saving := False\<rparr>"
  by (rule onSaveTemplate_cases [where pg = pg and nt = nt and w = w]) (use assms in auto)

lemma onSaveTemplate_first_write:
  assumes "requireLogin pg" and "\<not> writeOk nt 0"
  shows "snd (snd (onSaveTemplate nt pg w)) = [SaveFailed]
        \<and> templates_col (fst (snd (onSaveTemplate nt pg w))) = templates_col w
        \<and> codes_col (fst (snd (onSaveTemplate nt pg w))) = codes_col w"
  by (rule onSaveTemplate_cases [where pg = pg and nt = nt and w = w]) (use assms in auto)

text \<open>
  Claim C9. Saving never changes the step list or the title of the page, whatever the
  outcome of its writes and reads; without a login (the uid \<^verbatim>\<open>null\<close> or empty) it changes
  nothing at all. When a write of the save fails, the page is as it was
  before, with the saving flag off; the flag is off before a save, since the save button
  is disabled while it is on, so the page is exactly what it was.
\<close>

theorem save_keeps_editor_state:
  "page_steps (fst (onSaveTemplate nt pg w)) = page_steps pg
   \<and> page_title (fst (onSaveTemplate nt pg w)) = page_title pg
   \<and> (snd (snd (onSaveTemplate nt pg w)) = [SaveFailed] \<longrightarrow>
        fst (onSaveTemplate nt pg w) = pg\<lparr>page_saving := False\<rparr>)
   \<and> (snd (snd (onSaveTemplate nt pg w)) = [SaveFailed] \<and> \<not> page_saving pg \<longrightarrow>
        fst (onSaveTemplate nt pg w) = pg)
   \<and> (requireLogin pg \<and> \<not> writeOk nt 0 \<longrightarrow>
        snd (snd (onSaveTemplate nt pg w)) = [SaveFailed]
        \<and> templates_col (fst (snd (onSaveTemplate nt pg w))) = templates_col w
        \<and> codes_col (fst (snd (onSaveTemplate nt pg w))) = codes_col w)
   \<and> (\<not> requireLogin pg \<longrightarrow> onSaveTemplate nt pg w = (pg, w, [LoginRequired]))"
proof (intro conjI impI)
  assume "\<not> requireLogin pg"
  then show "onSaveTemplate nt pg w = (pg, w, [LoginRequired])"
    by (simp add: onSaveTemplate_def)
next
  show "page_steps (fst (onSaveTemplate nt pg w)) = page_steps pg"
    using onSaveTemplate_editor by blast
  show "page_title (fst (onSaveTemplate nt pg w)) = page_title pg"
    using onSaveTemplate_editor by blast
next
  assume "snd (snd (onSaveTemplate nt pg w)) = [SaveFailed]"
  then show "fst (onSaveTemplate nt pg w) = pg\<lparr>page_saving := False\<rparr>"
    by (rule onSaveTemplate_write_failed)
next
  assume a: "snd (snd (onSaveTemplate nt pg w)) = [SaveFailed] \<and> \<not> page_saving pg"
  then have "fst (onSaveTemplate nt pg w) = pg\<lparr>page_saving := False\<rparr>"
    using onSaveTemplate_write_failed by blast
  moreover have "pg\<lparr>page_saving := False\<rparr> = pg" using a by simp
  ultimately show "fst (onSaveTemplate nt pg w) = pg" by simp
next
  assume a: "requireLogin pg \<and> \<not> writeOk nt 0"
  then have r: "snd (snd (onSaveTemplate nt pg w)) = [SaveFailed]
        \<and> templates_col (fst (snd (onSaveTemplate nt pg w))) = templates_col w
        \<and> codes_col (fst (snd (onSaveTemplate nt pg w))) = codes_col w"
    using onSaveTemplate_first_write by blast
  from r show "snd (snd (onSaveTemplate nt pg w)) = [SaveFailed]" by simp
  from r show "templates_col (fst (snd (onSaveTemplate nt pg w))) = templates_col w" by simp
  from r show "codes_col (fst (snd (onSaveTemplate nt pg w))) = codes_col w" by simp
qed

theorem save_keeps_editor_state_witness:
  "fst (onSaveTemplate
      \<lparr>autoId = ''n1'', writeOk = (\<lambda>n. False), readOk = (\<lambda>n. True),
        serverTime = (\<lambda>n. 7), toLocaleString = (\<lambda>t. ''d''), localeCompare = (\<lambda>a b. 0),
        entropy_src = (\<lambda>n. (''r'', ''t''))\<rparr>
      \<lparr>page_userUid = Some ''u'',
        page_codesMap = [(''c'', \<lparr>code_label = ''C'', code_order = Fin 2, code_enabled = True\<rparr>)],
        page_templatesMeta = [],
        page_loadingTemplatesMeta = False, page_workTypeId = ''c'', page_newWorkLabel = [],
        page_title = ''C'',
        page_steps = [\<lparr>step_id = ''a'', step_name = ''x'', step_order = Fin 1\<rparr>,
                      \<lparr>step_id = [], step_name = [], step_order = Fin 2\<rparr>],
        page_lastLoadedAt = NeverLoaded, page_loading = False, page_saving = False\<rparr>
      \<lparr>codes_col = [], templates_col = [], uid_calls = 0\<rparr>)
   = \<lparr>page_userUid = Some ''u'',
        page_codesMap = [(''c'', \<lparr>code_label = ''C'', code_order = Fin 2, code_enabled = True\<rparr>)],
        page_templatesMeta = [],
        page_loadingTemplatesMeta = False, page_workTypeId = ''c'', page_newWorkLabel = [],
        page_title = ''C'',
        page_steps = [\<lparr>step_id = ''a'', step_name = ''x'', step_order = Fin 1\<rparr>,
                      \<lparr>step_id = [], step_name = [], step_order = Fin 2\<rparr>],
        page_lastLoadedAt = NeverLoaded, page_loading = False, page_saving = False\<rparr>"
  using save_keeps_editor_state [of
      "\<lparr>autoId = ''n1'', writeOk = (\<lambda>n. False), readOk = (\<lambda>n. True),
        serverTime = (\<lambda>n. 7), toLocaleString = (\<lambda>t. ''d''), localeCompare = (\<lambda>a b. 0),
        entropy_src = (\<lambda>n. (''r'', ''t''))\<rparr>"
      "\<lparr>page_userUid = Some ''u'',
        page_codesMap = [(''c'', \<lparr>code_label = ''C'', code_order = Fin 2, code_enabled = True\<rparr>)],
        page_templatesMeta = [],
        page_loadingTemplatesMeta = False, page_workTypeId = ''c'', page_newWorkLabel = [],
        page_title = ''C'',
        page_steps = [\<lparr>step_id = ''a'', step_name = ''x'', step_order = Fin 1\<rparr>,
                      \<lparr>step_id = [], step_name = [], step_order = Fin 2\<rparr>],
        page_lastLoadedAt = NeverLoaded, page_loading = False, page_saving = False\<rparr>"
      "\<lparr>codes_col = [], templates_col = [], uid_calls = 0\<rparr>"]
  by (simp add: requireLogin_def)

section \<open>Properties of the endpoints\<close>

subsection \<open>Cancel at period end\<close>

lemma cancel_POST_ok:
  assumes ok: "snd (fst (cancel_POST srv req)) = OkCancel u sid c ms"
  shows "\<exists>body ref flag sub.
         req_json req = Inr body
         \<and> u = toStr (property body ''uid'')
         \<and> toBoolOrNull (property body ''cancelAtPeriodEnd'') = Some flag
         \<and> findMemberRefByUid srv u = Inr (Some ref)
         \<and> sid = (case map_of (reNovaMember srv) ref of
                    Some m \<Rightarrow> (case md_billing m of
                                 Some b \<Rightarrow> toStr (bl_stripeSubscriptionId b)
                               | None \<Rightarrow> [])
                  | None \<Rightarrow> [])
         \<and> cancel_POST srv req
           = ((200, OkCancel u sid c ms), [StripeUpdate sid flag, SetBillingMirror ref c ms])
         \<and> subscriptionsUpdate srv sid flag = Inr sub
         \<and> c = (case sub of Some s \<Rightarrow> toBoolOrNull (cancel_at_period_end s) | None \<Rightarrow> None)
         \<and> ms = (case sub of
                    Some s \<Rightarrow> (case toNumOrNull (current_period_end s) of
                                 Some n \<Rightarrow> Some (js_mul n (Fin 1000))
                               | None \<Rightarrow> None)
                  | None \<Rightarrow> None)"
proof -
  obtain token where 1: "getBearer req = Some token"
    using ok by (cases "getBearer req") (simp_all add: cancel_POST_def)
  have 2: "getAdminApp srv = None"
    using ok 1 by (cases "getAdminApp srv") (simp_all add: cancel_POST_def)
  obtain d where 3: "verifyIdToken srv token = Inr d"
    using ok 1 2 by (cases "verifyIdToken srv token") (simp_all add: cancel_POST_def)
  have 4: "d \<noteq> []"
    using ok 1 2 3 by (cases "d = []") (simp_all add: cancel_POST_def)
  obtain body where 5: "req_json req = Inr body"
    using ok 1 2 3 4 by (cases "req_json req") (simp_all add: cancel_POST_def)
  have 6: "body \<noteq> JsonNull"
    using ok 1 2 3 4 5 by (cases "body = JsonNull") (simp_all add: cancel_POST_def)
  note start = cancel_POST_def 1 2 3 4 5 6 Let_def
  have 7: "toStr (property body ''uid'') \<noteq> []"
    using ok by (cases "toStr (property body ''uid'') = []") (simp_all add: start)
  obtain flag where 8: "toBoolOrNull (property body ''cancelAtPeriodEnd'') = Some flag"
    using ok 7 by (cases "toBoolOrNull (property body ''cancelAtPeriodEnd'')")
      (simp_all add: start)
  obtain r where 9: "findMemberRefByUid srv (toStr (property body ''uid'')) = Inr r"
    using ok by (cases "findMemberRefByUid srv (toStr (property body ''uid''))")
      (simp_all add: start 7 8)
  obtain ref where 10: "r = Some ref"
    using ok by (cases r) (simp_all add: start 7 8 9)
  note start = start 7 8 9 [unfolded 10]
  have 11: "dbRead srv 2 = None"
    using ok by (cases "dbRead srv 2") (simp_all add: start)
  define billing where "billing = (case map_of (reNovaMember srv) ref of
                      Some memberData \<Rightarrow> md_billing memberData
                    | None \<Rightarrow> None)"
  define sub_id where "sub_id = (case billing of
                                   Some b \<Rightarrow> toStr (bl_stripeSubscriptionId b)
                                 | None \<Rightarrow> [])"
  note start = start 11 billing_def [symmetric] sub_id_def [symmetric]
  have 12: "sub_id \<noteq> []"
    using ok by (cases "sub_id = []") (simp_all add: start)
  have 13: "getStripe srv = None"
    using ok 12 by (cases "getStripe srv") (simp_all add: start)
  obtain sub where 14: "subscriptionsUpdate srv sub_id flag = Inr sub"
    using ok 12 13 by (cases "subscriptionsUpdate srv sub_id flag") (simp_all add: start)
  have 15: "dbWrite srv 0 = None"
    using ok 12 13 14 by (cases "dbWrite srv 0") (simp_all add: start)
  have "cancel_POST srv req
      = ((200, OkCancel (toStr (property body ''uid'')) sub_id
            (case sub of Some s \<Rightarrow> toBoolOrNull (cancel_at_period_end s) | None \<Rightarrow> None)
            (case sub of
                      Some s \<Rightarrow> (case toNumOrNull (current_period_end s) of
                                   Some n \<Rightarrow> Some (js_mul n (Fin 1000))
                                 | None \<Rightarrow> None)
                    | None \<Rightarrow> None)),
         [StripeUpdate sub_id flag,
          SetBillingMirror ref
            (case sub of Some s \<Rightarrow> toBoolOrNull (cancel_at_period_end s) | None \<Rightarrow> None)
            (case sub of
                      Some s \<Rightarrow> (case toNumOrNull (current_period_end s) of
                                   Some n \<Rightarrow> Some (js_mul n (Fin 1000))
                                 | None \<Rightarrow> None)
                    | None \<Rightarrow> None)])"
    using 12 13 14 15 by (cases sub) (simp_all add: start)
  then have r: "u = toStr (property body ''uid'')" "sid = sub_id"
    "c = (case sub of Some s \<Rightarrow> toBoolOrNull (cancel_at_period_end s) | None \<Rightarrow> None)"
    "ms = (case sub of
             Some s \<Rightarrow> (case toNumOrNull (current_period_end s) of
                          Some n \<Rightarrow> Some (js_mul n (Fin 1000))
                        | None \<Rightarrow> None)
           | None \<Rightarrow> None)"
    "cancel_POST srv req
       = ((200, OkCancel u sid c ms), [StripeUpdate sid flag, SetBillingMirror ref c ms])"
    using ok by simp_all
  have f: "findMemberRefByUid srv u = Inr (Some ref)" using 9 10 r(1) by simp
  have i: "sid = (case map_of (reNovaMember srv) ref of
                    Some m \<Rightarrow> (case md_billing m of
                                 Some b \<Rightarrow> toStr (bl_stripeSubscriptionId b)
                               | None \<Rightarrow> [])
                  | None \<Rightarrow> [])"
    unfolding r(2) sub_id_def billing_def by (simp split: option.split)
  have up: "subscriptionsUpdate srv sid flag = Inr sub" using 14 r(2) by simp
  show ?thesis using 5 8 r(1,3,4,5) f i up by blast
qed

text \<open>
  Claim C5. Whenever the cancel-at-period-end endpoint answers with \<^verbatim>\<open>ok: true\<close>, it has
  updated, at the provider, the subscription recorded on the member document that
  \<^verbatim>\<open>findMemberRefByUid\<close> finds for the uid of the request, and then written the billing
  mirror of that document. The two values written (and returned) are read from the
  provider's answer: \<^verbatim>\<open>cancelAtPeriodEnd\<close> is its \<^verbatim>\<open>cancel_at_period_end\<close> when that is a
  boolean (else \<^verbatim>\<open>null\<close>), \<^verbatim>\<open>currentPeriodEndMs\<close> is its \<^verbatim>\<open>current_period_end\<close> times
  1000, as the language multiplies numbers, when that is a number (else \<^verbatim>\<open>null\<close>); the
  product is the exact one for a whole number of seconds whose product is at most
  \<open>2 ^ 53\<close> in absolute value. The flag of the request only goes to the provider.
\<close>

theorem billing_mirror:
  "snd (fst (cancel_POST srv req)) = OkCancel u sid c ms \<longrightarrow>
     (\<exists>body ref flag sub.
         req_json req = Inr body
         \<and> u = toStr (property body ''uid'')
         \<and> toBoolOrNull (property body ''cancelAtPeriodEnd'') = Some flag
         \<and> findMemberRefByUid srv u = Inr (Some ref)
         \<and> sid = (case map_of (reNovaMember srv) ref of
                    Some m \<Rightarrow> (case md_billing m of
                                 Some b \<Rightarrow> toStr (bl_stripeSubscriptionId b)
                               | None \<Rightarrow> [])
                  | None \<Rightarrow> [])
         \<and> cancel_POST srv req
           = ((200, OkCancel u sid c ms), [StripeUpdate sid flag, SetBillingMirror ref c ms])
         \<and> subscriptionsUpdate srv sid flag = Inr sub
         \<and> c = (case sub of Some s \<Rightarrow> toBoolOrNull (cancel_at_period_end s) | None \<Rightarrow> None)
         \<and> ms = (case sub of
                    Some s \<Rightarrow> (case toNumOrNull (current_period_end s) of
                                 Some n \<Rightarrow> Some (js_mul n (Fin 1000))
                               | None \<Rightarrow> None)
                  | None \<Rightarrow> None)
         \<and> (\<forall>s b. sub = Some s \<and> cancel_at_period_end s = JBool b \<longrightarrow> c = Some b)
         \<and> (\<forall>s t. sub = Some s \<and> current_period_end s = JNum (Fin t)
                \<longrightarrow> ms = Some (to_double (t * 1000)))
         \<and> (\<forall>s t. sub = Some s \<and> current_period_end s = JNum (Fin t)
                  \<and> t \<in> \<int> \<and> \<bar>t * 1000\<bar> \<le> 2 ^ 53
                \<longrightarrow> ms = Some (Fin (t * 1000))))"
proof
  assume "snd (fst (cancel_POST srv req)) = OkCancel u sid c ms"
  then obtain body ref flag sub where r:
    "req_json req = Inr body"
    "u = toStr (property body ''uid'')"
    "toBoolOrNull (property body ''cancelAtPeriodEnd'') = Some flag"
    "findMemberRefByUid srv u = Inr (Some ref)"
    "sid = (case map_of (reNovaMember srv) ref of
                    Some m \<Rightarrow> (case md_billing m of
                                 Some b \<Rightarrow> toStr (bl_stripeSubscriptionId b)
                               | None \<Rightarrow> [])
                  | None \<Rightarrow> [])"
    "cancel_POST srv req
       = ((200, OkCancel u sid c ms), [StripeUpdate sid flag, SetBillingMirror ref c ms])"
    "subscriptionsUpdate srv sid flag = Inr sub"
    "c = (case sub of Some s \<Rightarrow> toBoolOrNull (cancel_at_period_end s) | None \<Rightarrow> None)"
    "ms = (case sub of
             Some s \<Rightarrow> (case toNumOrNull (current_period_end s) of
                          Some n \<Rightarrow> Some (js_mul n (Fin 1000))
                        | None \<Rightarrow> None)
           | None \<Rightarrow> None)"
    using cancel_POST_ok [of srv req u sid c ms] by blast
  have 1: "\<forall>s b. sub = Some s \<and> cancel_at_period_end s = JBool b \<longrightarrow> c = Some b"
    using r(8) by auto
  have 2: "\<forall>s t. sub = Some s \<and> current_period_end s = JNum (Fin t)
                \<longrightarrow> ms = Some (to_double (t * 1000))"
    using r(9) by (auto simp: js_mul_def)
  have 3: "\<forall>s t. sub = Some s \<and> current_period_end s = JNum (Fin t)
                  \<and> t \<in> \<int> \<and> \<bar>t * 1000\<bar> \<le> 2 ^ 53
                \<longrightarrow> ms = Some (Fin (t * 1000))"
  proof (intro allI impI)
    fix s t
    assume a: "sub = Some s \<and> current_period_end s = JNum (Fin t)
                  \<and> t \<in> \<int> \<and> \<bar>t * 1000\<bar> \<le> 2 ^ 53"
    then have "t * 1000 \<in> \<int>" by simp
    then have "to_double (t * 1000) = Fin (t * 1000)" using a by (intro to_double_Ints) simp_all
    then show "ms = Some (Fin (t * 1000))" using 2 a by simp
  qed
  show "\<exists>body ref flag sub.
         req_json req = Inr body
         \<and> u = toStr (property body ''uid'')
         \<and> toBoolOrNull (property body ''cancelAtPeriodEnd'') = Some flag
         \<and> findMemberRefByUid srv u = Inr (Some ref)
         \<and> sid = (case map_of (reNovaMember srv) ref of
                    Some m \<Rightarrow> (case md_billing m of
                                 Some b \<Rightarrow> toStr (bl_stripeSubscriptionId b)
                               | None \<Rightarrow> [])
                  | None \<Rightarrow> [])
         \<and> cancel_POST srv req
           = ((200, OkCancel u sid c ms), [StripeUpdate sid flag, SetBillingMirror ref c ms])
         \<and> subscriptionsUpdate srv sid flag = Inr sub
         \<and> c = (case sub of Some s \<Rightarrow> toBoolOrNull (cancel_at_period_end s) | None \<Rightarrow> None)
         \<and> ms = (case sub of
                    Some s \<Rightarrow> (case toNumOrNull (current_period_end s) of
                                 Some n \<Rightarrow> Some (js_mul n (Fin 1000))
                               | None \<Rightarrow> None)
                  | None \<Rightarrow> None)
         \<and> (\<forall>s b. sub = Some s \<and> cancel_at_period_end s = JBool b \<longrightarrow> c = Some b)
         \<and> (\<forall>s t. sub = Some s \<and> current_period_end s = JNum (Fin t)
                \<longrightarrow> ms = Some (to_double (t * 1000)))
         \<and> (\<forall>s t. sub = Some s \<and> current_period_end s = JNum (Fin t)
                  \<and> t \<in> \<int> \<and> \<bar>t * 1000\<bar> \<le> 2 ^ 53
                \<longrightarrow> ms = Some (Fin (t * 1000)))"
    using r 1 2 3 by blast
qed

lemma getBearer_example: "getBearer_match ''Bearer tok'' = Some ''tok''"
  by code_simp

theorem billing_mirror_witness:
  "cancel_POST
      \<lparr>RENOVA_ADMIN_UIDS = Some ''admin1, admin2'', STRIPE_SECRET_KEY = Some ''sk'',
        getAdminApp = None, verifyIdToken = (\<lambda>t. Inr ''user1''),
        reNovaMember =
          [(''m1'', \<lparr>md_uid = JStr ''m1'', md_email = JStr ''m@x'',
                    md_billing = Some \<lparr>bl_status = JStr ''active'',
                      bl_stripeSubscriptionId = JStr ''sub_1'',
                      bl_cancelAtPeriodEnd = JNull, bl_currentPeriodEndMs = JNull\<rparr>\<rparr>)],
        dbRead = (\<lambda>n. None), dbWrite = (\<lambda>n. None),
        createUser = (\<lambda>e p n. Inr ''new1''),
        subscriptionsUpdate = (\<lambda>i f. Inr (Some \<lparr>cancel_at_period_end = JBool False,
                                            current_period_end = JNum (Fin 1700000000)\<rparr>)),
        nullReadMessage = ''TypeError''\<rparr>
      \<lparr>req_authorization = Some ''Bearer tok'',
        req_json = Inr (JsonObject [(''uid'', JStr ''m1''), (''cancelAtPeriodEnd'', JBool True)])\<rparr>
   = ((200, OkCancel ''m1'' ''sub_1'' (Some False) (Some (Fin 1700000000000))),
      [StripeUpdate ''sub_1'' True,
       SetBillingMirror ''m1'' (Some False) (Some (Fin 1700000000000))])"
  using billing_mirror [of
      "\<lparr>RENOVA_ADMIN_UIDS = Some ''admin1, admin2'', STRIPE_SECRET_KEY = Some ''sk'',
        getAdminApp = None, verifyIdToken = (\<lambda>t. Inr ''user1''),
        reNovaMember =
          [(''m1'', \<lparr>md_uid = JStr ''m1'', md_email = JStr ''m@x'',
                    md_billing = Some \<lparr>bl_status = JStr ''active'',
                      bl_stripeSubscriptionId = JStr ''sub_1'',
                      bl_cancelAtPeriodEnd = JNull, bl_currentPeriodEndMs = JNull\<rparr>\<rparr>)],
        dbRead = (\<lambda>n. None), dbWrite = (\<lambda>n. None),
        createUser = (\<lambda>e p n. Inr ''new1''),
        subscriptionsUpdate = (\<lambda>i f. Inr (Some \<lparr>cancel_at_period_end = JBool False,
                                            current_period_end = JNum (Fin 1700000000)\<rparr>)),
        nullReadMessage = ''TypeError''\<rparr>"
      "\<lparr>req_authorization = Some ''Bearer tok'',
        req_json = Inr (JsonObject [(''uid'', JStr ''m1''), (''cancelAtPeriodEnd'', JBool True)])\<rparr>"
      "''m1''" "''sub_1''" "Some False" "Some (Fin 1700000000000)"]
  by (simp add: cancel_POST_def getBearer_def getBearer_example findMemberRefByUid_def
      getStripe_def trim_def js_space_def js_mul_def Let_def to_double_Ints)

subsection \<open>The Identity Gate\<close>

lemma getBearer_absent: "req_authorization req = None \<Longrightarrow> getBearer req = None"
  by (simp add: getBearer_def getBearer_match_def)

lemma gate_rejects:
  "getBearer req = None \<Longrightarrow> requireAdminFromRequest srv req = Inl ''missing_authorization''"
  "getBearer req = Some token \<Longrightarrow> getAdminApp srv = Some msg
     \<Longrightarrow> requireAdminFromRequest srv req = Inl msg"
  "getBearer req = Some token \<Longrightarrow> getAdminApp srv = None \<Longrightarrow> verifyIdToken srv token = Inl msg
     \<Longrightarrow> requireAdminFromRequest srv req = Inl msg"
  "getBearer req = Some token \<Longrightarrow> getAdminApp srv = None \<Longrightarrow> verifyIdToken srv token = Inr p
     \<Longrightarrow> p \<notin> set (parseAdminUids srv) \<Longrightarrow> requireAdminFromRequest srv req = Inl ''not_admin''"
  by (simp_all add: requireAdminFromRequest_def)

lemma gate_accepts:
  assumes "requireAdminFromRequest srv req = Inr p"
  shows "\<exists>token. getBearer req = Some token \<and> getAdminApp srv = None
           \<and> verifyIdToken srv token = Inr p \<and> p \<in> set (parseAdminUids srv)"
  using assms
  by (auto simp: requireAdminFromRequest_def split: option.splits sum.splits if_splits)

lemma gated_endpoints:
  assumes "requireAdminFromRequest srv req = Inl msg"
  shows "create_member_POST srv req = (gate_catch msg, [])"
    and "billing_status_POST srv req = (gate_catch msg, [])"
  using assms by (simp_all add: create_member_POST_def billing_status_POST_def)

lemma cancel_rejects:
  "getBearer req = None \<Longrightarrow> cancel_POST srv req = ((401, Failure ''UNAUTHORIZED''), [])"
  "getBearer req = Some token \<Longrightarrow> getAdminApp srv = Some msg
     \<Longrightarrow> cancel_POST srv req = ((500, Failure msg), [])"
  "getBearer req = Some token \<Longrightarrow> getAdminApp srv = None \<Longrightarrow> verifyIdToken srv token = Inl msg
     \<Longrightarrow> cancel_POST srv req = ((500, Failure msg), [])"
  by (simp_all add: cancel_POST_def)

lemma cancel_ignores_allow_list:
  "cancel_POST (srv\<lparr>RENOVA_ADMIN_UIDS := a\<rparr>) req = cancel_POST srv req"
  by (simp add: cancel_POST_def findMemberRefByUid_def getStripe_def Let_def
      cong: option.case_cong sum.case_cong if_cong)

lemma cancel_ignores_principal:
  assumes "getBearer req = Some token" and "verifyIdToken srv token = Inr p"
    and "p \<noteq> []" and "q \<noteq> []"
  shows "cancel_POST (srv\<lparr>verifyIdToken := (verifyIdToken srv)(token := Inr q)\<rparr>) req
           = cancel_POST srv req"
  using assms
  by (cases "getAdminApp srv")
    (simp_all add: cancel_POST_def findMemberRefByUid_def getStripe_def Let_def
      cong: option.case_cong sum.case_cong if_cong)

lemma cancel_empty_principal:
  "getBearer req = Some token \<Longrightarrow> getAdminApp srv = None \<Longrightarrow> verifyIdToken srv token = Inr []
     \<Longrightarrow> cancel_POST srv req = ((401, Failure ''UNAUTHORIZED''), [])"
  by (simp add: cancel_POST_def)

lemma cancel_accepts:
  assumes "getBearer req = Some token" and "getAdminApp srv = None"
    and "verifyIdToken srv token = Inr p" and "p \<noteq> []"
  shows "fst (fst (cancel_POST srv req)) \<noteq> 401 \<and> fst (fst (cancel_POST srv req)) \<noteq> 403"
  using assms
  by (simp add: cancel_POST_def Let_def split: option.split sum.split)

text \<open>
  Claim C6, as amended. Member creation and billing status set reject a request, without
  any effect, when the Authorization header is absent or is no bearer credential (401,
  \<^verbatim>\<open>missing_authorization\<close>), when the identity provider refuses the credential (the
  provider's message; the status is 500, unless that message is \<^verbatim>\<open>missing_authorization\<close>,
  then 401, or \<^verbatim>\<open>not_admin\<close>, then 403), and when the principal is not in the allow-list
  (403, \<^verbatim>\<open>not_admin\<close>). Cancel-at-period-end rejects a request, without any effect, when the
  header is absent or is no bearer credential (401, \<^verbatim>\<open>UNAUTHORIZED\<close>), when the identity
  provider refuses the credential (the provider's message, 500), and when the credential
  resolves to an empty principal (401, \<^verbatim>\<open>UNAUTHORIZED\<close>). It accepts every other
  authenticated principal: its answer is then neither 401 nor 403, and is the same
  whichever non-empty principal the credential resolves to. It does not consult the
  allow-list: its answer and its effects are the same whatever the allow-list is.
\<close>

theorem identity_gate:
  "(req_authorization req = None \<longrightarrow> getBearer req = None)
   \<and> (getBearer req = None \<longrightarrow>
        create_member_POST srv req = ((401, Failure ''missing_authorization''), [])
        \<and> billing_status_POST srv req = ((401, Failure ''missing_authorization''), [])
        \<and> cancel_POST srv req = ((401, Failure ''UNAUTHORIZED''), []))
   \<and> (getBearer req = Some token \<and> getAdminApp srv = None
        \<and> verifyIdToken srv token = Inl msg \<longrightarrow>
        create_member_POST srv req
          = ((if msg = ''missing_authorization'' then 401
              else if msg = ''not_admin'' then 403 else 500, Failure msg), [])
        \<and> billing_status_POST srv req
          = ((if msg = ''missing_authorization'' then 401
              else if msg = ''not_admin'' then 403 else 500, Failure msg), [])
        \<and> cancel_POST srv req = ((500, Failure msg), []))
   \<and> (getBearer req = Some token \<and> getAdminApp srv = None
        \<and> verifyIdToken srv token = Inr p \<and> p \<notin> set (parseAdminUids srv) \<longrightarrow>
        create_member_POST srv req = ((403, Failure ''not_admin''), [])
        \<and> billing_status_POST srv req = ((403, Failure ''not_admin''), []))
   \<and> (getBearer req = Some token \<and> getAdminApp srv = None
        \<and> verifyIdToken srv token = Inr [] \<longrightarrow>
        cancel_POST srv req = ((401, Failure ''UNAUTHORIZED''), []))
   \<and> (getBearer req = Some token \<and> getAdminApp srv = None
        \<and> verifyIdToken srv token = Inr p \<and> p \<noteq> [] \<longrightarrow>
        fst (fst (cancel_POST srv req)) \<noteq> 401 \<and> fst (fst (cancel_POST srv req)) \<noteq> 403)
   \<and> (getBearer req = Some token \<and> verifyIdToken srv token = Inr p
        \<and> p \<noteq> [] \<and> q \<noteq> [] \<longrightarrow>
        cancel_POST (srv\<lparr>verifyIdToken := (verifyIdToken srv)(token := Inr q)\<rparr>) req
          = cancel_POST srv req)
   \<and> cancel_POST (srv\<lparr>RENOVA_ADMIN_UIDS := a\<rparr>) req = cancel_POST srv req"
proof (intro conjI impI)
  assume "req_authorization req = None"
  then show "getBearer req = None" by (rule getBearer_absent)
next
  assume a: "getBearer req = None"
  then have g: "requireAdminFromRequest srv req = Inl ''missing_authorization''"
    by (rule gate_rejects(1))
  show "create_member_POST srv req = ((401, Failure ''missing_authorization''), [])"
    using gated_endpoints(1) [OF g] by (simp add: gate_catch_def)
  show "billing_status_POST srv req = ((401, Failure ''missing_authorization''), [])"
    using gated_endpoints(2) [OF g] by (simp add: gate_catch_def)
  show "cancel_POST srv req = ((401, Failure ''UNAUTHORIZED''), [])"
    using a by (rule cancel_rejects(1))
next
  assume a: "getBearer req = Some token \<and> getAdminApp srv = None
        \<and> verifyIdToken srv token = Inl msg"
  then have g: "requireAdminFromRequest srv req = Inl msg"
    using gate_rejects(3) by blast
  show "create_member_POST srv req
          = ((if msg = ''missing_authorization'' then 401
              else if msg = ''not_admin'' then 403 else 500, Failure msg), [])"
    using gated_endpoints(1) [OF g] by (simp only: gate_catch_def)
  show "billing_status_POST srv req
          = ((if msg = ''missing_authorization'' then 401
              else if msg = ''not_admin'' then 403 else 500, Failure msg), [])"
    using gated_endpoints(2) [OF g] by (simp only: gate_catch_def)
  show "cancel_POST srv req = ((500, Failure msg), [])"
    using a cancel_rejects(3) by blast
next
  assume a: "getBearer req = Some token \<and> getAdminApp srv = None
        \<and> verifyIdToken srv token = Inr p \<and> p \<notin> set (parseAdminUids srv)"
  then have g: "requireAdminFromRequest srv req = Inl ''not_admin''"
    using gate_rejects(4) by blast
  show "create_member_POST srv req = ((403, Failure ''not_admin''), [])"
    using gated_endpoints(1) [OF g] by (simp add: gate_catch_def)
  show "billing_status_POST srv req = ((403, Failure ''not_admin''), [])"
    using gated_endpoints(2) [OF g] by (simp add: gate_catch_def)
next
  assume "getBearer req = Some token \<and> getAdminApp srv = None
        \<and> verifyIdToken srv token = Inr []"
  then show "cancel_POST srv req = ((401, Failure ''UNAUTHORIZED''), [])"
    using cancel_empty_principal by blast
next
  assume a: "getBearer req = Some token \<and> getAdminApp srv = None
        \<and> verifyIdToken srv token = Inr p \<and> p \<noteq> []"
  show "fst (fst (cancel_POST srv req)) \<noteq> 401"
    using a cancel_accepts [of req token srv p] by blast
  show "fst (fst (cancel_POST srv req)) \<noteq> 403"
    using a cancel_accepts [of req token srv p] by blast
next
  assume "getBearer req = Some token \<and> verifyIdToken srv token = Inr p
        \<and> p \<noteq> [] \<and> q \<noteq> []"
  then show "cancel_POST (srv\<lparr>verifyIdToken := (verifyIdToken srv)(token := Inr q)\<rparr>) req
          = cancel_POST srv req"
    using cancel_ignores_principal [of req token srv p q] by blast
next
  show "cancel_POST (srv\<lparr>RENOVA_ADMIN_UIDS := a\<rparr>) req = cancel_POST srv req"
    by (rule cancel_ignores_allow_list)
qed

theorem identity_gate_witness:
  "create_member_POST
      \<lparr>RENOVA_ADMIN_UIDS = Some ''admin1, admin2'', STRIPE_SECRET_KEY = Some ''sk'',
        getAdminApp = None, verifyIdToken = (\<lambda>t. Inr ''user1''),
        reNovaMember =
          [(''m1'', \<lparr>md_uid = JStr ''m1'', md_email = JStr ''m@x'',
                    md_billing = Some \<lparr>bl_status = JStr ''active'',
                      bl_stripeSubscriptionId = JStr ''sub_1'',
                      bl_cancelAtPeriodEnd = JNull, bl_currentPeriodEndMs = JNull\<rparr>\<rparr>)],
        dbRead = (\<lambda>n. None), dbWrite = (\<lambda>n. None),
        createUser = (\<lambda>e p n. Inr ''new1''),
        subscriptionsUpdate = (\<lambda>i f. Inr (Some \<lparr>cancel_at_period_end = JBool False,
                                            current_period_end = JNum (Fin 1700000000)\<rparr>)),
        nullReadMessage = ''TypeError''\<rparr>
      \<lparr>req_authorization = None,
        req_json = Inr (JsonObject [(''uid'', JStr ''m1''), (''cancelAtPeriodEnd'', JBool True)])\<rparr>
   = ((401, Failure ''missing_authorization''), [])
   \<and> cancel_POST
      \<lparr>RENOVA_ADMIN_UIDS = Some ''admin1, admin2'', STRIPE_SECRET_KEY = Some ''sk'',
        getAdminApp = None, verifyIdToken = (\<lambda>t. Inr ''user1''),
        reNovaMember =
          [(''m1'', \<lparr>md_uid = JStr ''m1'', md_email = JStr ''m@x'',
                    md_billing = Some \<lparr>bl_status = JStr ''active'',
                      bl_stripeSubscriptionId = JStr ''sub_1'',
                      bl_cancelAtPeriodEnd = JNull, bl_currentPeriodEndMs = JNull\<rparr>\<rparr>)],
        dbRead = (\<lambda>n. None), dbWrite = (\<lambda>n. None),
        createUser = (\<lambda>e p n. Inr ''new1''),
        subscriptionsUpdate = (\<lambda>i f. Inr (Some \<lparr>cancel_at_period_end = JBool False,
                                            current_period_end = JNum (Fin 1700000000)\<rparr>)),
        nullReadMessage = ''TypeError''\<rparr>
      \<lparr>req_authorization = None,
        req_json = Inr (JsonObject [(''uid'', JStr ''m1''), (''cancelAtPeriodEnd'', JBool True)])\<rparr>
   = ((401, Failure ''UNAUTHORIZED''), [])
   \<and> billing_status_POST
      \<lparr>RENOVA_ADMIN_UIDS = Some ''admin1, admin2'', STRIPE_SECRET_KEY = Some ''sk'',
        getAdminApp = None, verifyIdToken = (\<lambda>t. Inr ''user1''),
        reNovaMember =
          [(''m1'', \<lparr>md_uid = JStr ''m1'', md_email = JStr ''m@x'',
                    md_billing = Some \<lparr>bl_status = JStr ''active'',
                      bl_stripeSubscriptionId = JStr ''sub_1'',
                      bl_cancelAtPeriodEnd = JNull, bl_currentPeriodEndMs = JNull\<rparr>\<rparr>)],
        dbRead = (\<lambda>n. None), dbWrite = (\<lambda>n. None),
        createUser = (\<lambda>e p n. Inr ''new1''),
        subscriptionsUpdate = (\<lambda>i f. Inr (Some \<lparr>cancel_at_period_end = JBool False,
                                            current_period_end = JNum (Fin 1700000000)\<rparr>)),
        nullReadMessage = ''TypeError''\<rparr>
      \<lparr>req_authorization = Some ''Bearer tok'',
        req_json = Inr (JsonObject [(''uid'', JStr ''m1''), (''cancelAtPeriodEnd'', JBool True)])\<rparr>
   = ((403, Failure ''not_admin''), [])
   \<and> cancel_POST
      \<lparr>RENOVA_ADMIN_UIDS = Some ''admin1, admin2'', STRIPE_SECRET_KEY = Some ''sk'',
        getAdminApp = None, verifyIdToken = (\<lambda>t. Inr ''''),
        reNovaMember =
          [(''m1'', \<lparr>md_uid = JStr ''m1'', md_email = JStr ''m@x'',
                    md_billing = Some \<lparr>bl_status = JStr ''active'',
                      bl_stripeSubscriptionId = JStr ''sub_1'',
                      bl_cancelAtPeriodEnd = JNull, bl_currentPeriodEndMs = JNull\<rparr>\<rparr>)],
        dbRead = (\<lambda>n. None), dbWrite = (\<lambda>n. None),
        createUser = (\<lambda>e p n. Inr ''new1''),
        subscriptionsUpdate = (\<lambda>i f. Inr (Some \<lparr>cancel_at_period_end = JBool False,
                                            current_period_end = JNum (Fin 1700000000)\<rparr>)),
        nullReadMessage = ''TypeError''\<rparr>
      \<lparr>req_authorization = Some ''Bearer tok'',
        req_json = Inr (JsonObject [(''uid'', JStr ''m1''), (''cancelAtPeriodEnd'', JBool True)])\<rparr>
   = ((401, Failure ''UNAUTHORIZED''), [])
   \<and> fst (fst (cancel_POST
      \<lparr>RENOVA_ADMIN_UIDS = Some ''admin1, admin2'', STRIPE_SECRET_KEY = Some ''sk'',
        getAdminApp = None, verifyIdToken = (\<lambda>t. Inr ''user1''),
        reNovaMember =
          [(''m1'', \<lparr>md_uid = JStr ''m1'', md_email = JStr ''m@x'',
                    md_billing = Some \<lparr>bl_status = JStr ''active'',
                      bl_stripeSubscriptionId = JStr ''sub_1'',
                      bl_cancelAtPeriodEnd = JNull, bl_currentPeriodEndMs = JNull\<rparr>\<rparr>)],
        dbRead = (\<lambda>n. None), dbWrite = (\<lambda>n. None),
        createUser = (\<lambda>e p n. Inr ''new1''),
        subscriptionsUpdate = (\<lambda>i f. Inr (Some \<lparr>cancel_at_period_end = JBool False,
                                            current_period_end = JNum (Fin 1700000000)\<rparr>)),
        nullReadMessage = ''TypeError''\<rparr>
      \<lparr>req_authorization = Some ''Bearer tok'',
        req_json = Inr (JsonObject [(''uid'', JStr ''m1''), (''cancelAtPeriodEnd'', JBool True)])\<rparr>)) = 200
   \<and> cancel_POST
      (\<lparr>RENOVA_ADMIN_UIDS = Some ''admin1, admin2'', STRIPE_SECRET_KEY = Some ''sk'',
        getAdminApp = None, verifyIdToken = (\<lambda>t. Inr ''user1''),
        reNovaMember =
          [(''m1'', \<lparr>md_uid = JStr ''m1'', md_email = JStr ''m@x'',
                    md_billing = Some \<lparr>bl_status = JStr ''active'',
                      bl_stripeSubscriptionId = JStr ''sub_1'',
                      bl_cancelAtPeriodEnd = JNull, bl_currentPeriodEndMs = JNull\<rparr>\<rparr>)],
        dbRead = (\<lambda>n. None), dbWrite = (\<lambda>n. None),
        createUser = (\<lambda>e p n. Inr ''new1''),
        subscriptionsUpdate = (\<lambda>i f. Inr (Some \<lparr>cancel_at_period_end = JBool False,
                                            current_period_end = JNum (Fin 1700000000)\<rparr>)),
        nullReadMessage = ''TypeError''\<rparr>
        \<lparr>verifyIdToken := (\<lambda>t. Inr ''user1'')(''tok'' := Inr ''admin1'')\<rparr>)
      \<lparr>req_authorization = Some ''Bearer tok'',
        req_json = Inr (JsonObject [(''uid'', JStr ''m1''), (''cancelAtPeriodEnd'', JBool True)])\<rparr>
   = cancel_POST
      \<lparr>RENOVA_ADMIN_UIDS = Some ''admin1, admin2'', STRIPE_SECRET_KEY = Some ''sk'',
        getAdminApp = None, verifyIdToken = (\<lambda>t. Inr ''user1''),
        reNovaMember =
          [(''m1'', \<lparr>md_uid = JStr ''m1'', md_email = JStr ''m@x'',
                    md_billing = Some \<lparr>bl_status = JStr ''active'',
                      bl_stripeSubscriptionId = JStr ''sub_1'',
                      bl_cancelAtPeriodEnd = JNull, bl_currentPeriodEndMs = JNull\<rparr>\<rparr>)],
        dbRead = (\<lambda>n. None), dbWrite = (\<lambda>n. None),
        createUser = (\<lambda>e p n. Inr ''new1''),
        subscriptionsUpdate = (\<lambda>i f. Inr (Some \<lparr>cancel_at_period_end = JBool False,
                                            current_period_end = JNum (Fin 1700000000)\<rparr>)),
        nullReadMessage = ''TypeError''\<rparr>
      \<lparr>req_authorization = Some ''Bearer tok'',
        req_json = Inr (JsonObject [(''uid'', JStr ''m1''), (''cancelAtPeriodEnd'', JBool True)])\<rparr>
   \<and> cancel_POST
      (\<lparr>RENOVA_ADMIN_UIDS = Some ''admin1, admin2'', STRIPE_SECRET_KEY = Some ''sk'',
        getAdminApp = None, verifyIdToken = (\<lambda>t. Inr ''user1''),
        reNovaMember =
          [(''m1'', \<lparr>md_uid = JStr ''m1'', md_email = JStr ''m@x'',
                    md_billing = Some \<lparr>bl_status = JStr ''active'',
                      bl_stripeSubscriptionId = JStr ''sub_1'',
                      bl_cancelAtPeriodEnd = JNull, bl_currentPeriodEndMs = JNull\<rparr>\<rparr>)],
        dbRead = (\<lambda>n. None), dbWrite = (\<lambda>n. None),
        createUser = (\<lambda>e p n. Inr ''new1''),
        subscriptionsUpdate = (\<lambda>i f. Inr (Some \<lparr>cancel_at_period_end = JBool False,
                                            current_period_end = JNum (Fin 1700000000)\<rparr>)),
        nullReadMessage = ''TypeError''\<rparr>
        \<lparr>RENOVA_ADMIN_UIDS := Some ''user1''\<rparr>)
      \<lparr>req_authorization = Some ''Bearer tok'',
        req_json = Inr (JsonObject [(''uid'', JStr ''m1''), (''cancelAtPeriodEnd'', JBool True)])\<rparr>
   = cancel_POST
      \<lparr>RENOVA_ADMIN_UIDS = Some ''admin1, admin2'', STRIPE_SECRET_KEY = Some ''sk'',
        getAdminApp = None, verifyIdToken = (\<lambda>t. Inr ''user1''),
        reNovaMember =
          [(''m1'', \<lparr>md_uid = JStr ''m1'', md_email = JStr ''m@x'',
                    md_billing = Some \<lparr>bl_status = JStr ''active'',
                      bl_stripeSubscriptionId = JStr ''sub_1'',
                      bl_cancelAtPeriodEnd = JNull, bl_currentPeriodEndMs = JNull\<rparr>\<rparr>)],
        dbRead = (\<lambda>n. None), dbWrite = (\<lambda>n. None),
        createUser = (\<lambda>e p n. Inr ''new1''),
        subscriptionsUpdate = (\<lambda>i f. Inr (Some \<lparr>cancel_at_period_end = JBool False,
                                            current_period_end = JNum (Fin 1700000000)\<rparr>)),
        nullReadMessage = ''TypeError''\<rparr>
      \<lparr>req_authorization = Some ''Bearer tok'',
        req_json = Inr (JsonObject [(''uid'', JStr ''m1''), (''cancelAtPeriodEnd'', JBool True)])\<rparr>"
  using identity_gate [of
      "\<lparr>req_authorization = None,
        req_json = Inr (JsonObject [(''uid'', JStr ''m1''), (''cancelAtPeriodEnd'', JBool True)])\<rparr>"
      "\<lparr>RENOVA_ADMIN_UIDS = Some ''admin1, admin2'', STRIPE_SECRET_KEY = Some ''sk'',
        getAdminApp = None, verifyIdToken = (\<lambda>t. Inr ''user1''),
        reNovaMember =
          [(''m1'', \<lparr>md_uid = JStr ''m1'', md_email = JStr ''m@x'',
                    md_billing = Some \<lparr>bl_status = JStr ''active'',
                      bl_stripeSubscriptionId = JStr ''sub_1'',
                      bl_cancelAtPeriodEnd = JNull, bl_currentPeriodEndMs = JNull\<rparr>\<rparr>)],
        dbRead = (\<lambda>n. None), dbWrite = (\<lambda>n. None),
        createUser = (\<lambda>e p n. Inr ''new1''),
        subscriptionsUpdate = (\<lambda>i f. Inr (Some \<lparr>cancel_at_period_end = JBool False,
                                            current_period_end = JNum (Fin 1700000000)\<rparr>)),
        nullReadMessage = ''TypeError''\<rparr>"
      "''tok''" "''refused''" "''user1''" "''admin1''" "Some ''user1''"]
    identity_gate [of
      "\<lparr>req_authorization = Some ''Bearer tok'',
        req_json = Inr (JsonObject [(''uid'', JStr ''m1''), (''cancelAtPeriodEnd'', JBool True)])\<rparr>"
      "\<lparr>RENOVA_ADMIN_UIDS = Some ''admin1, admin2'', STRIPE_SECRET_KEY = Some ''sk'',
        getAdminApp = None, verifyIdToken = (\<lambda>t. Inr ''user1''),
        reNovaMember =
          [(''m1'', \<lparr>md_uid = JStr ''m1'', md_email = JStr ''m@x'',
                    md_billing = Some \<lparr>bl_status = JStr ''active'',
                      bl_stripeSubscriptionId = JStr ''sub_1'',
                      bl_cancelAtPeriodEnd = JNull, bl_currentPeriodEndMs = JNull\<rparr>\<rparr>)],
        dbRead = (\<lambda>n. None), dbWrite = (\<lambda>n. None),
        createUser = (\<lambda>e p n. Inr ''new1''),
        subscriptionsUpdate = (\<lambda>i f. Inr (Some \<lparr>cancel_at_period_end = JBool False,
                                            current_period_end = JNum (Fin 1700000000)\<rparr>)),
        nullReadMessage = ''TypeError''\<rparr>"
      "''tok''" "''refused''" "''user1''" "''admin1''" "Some ''user1''"]
    identity_gate [of
      "\<lparr>req_authorization = Some ''Bearer tok'',
        req_json = Inr (JsonObject [(''uid'', JStr ''m1''), (''cancelAtPeriodEnd'', JBool True)])\<rparr>"
      "\<lparr>RENOVA_ADMIN_UIDS = Some ''admin1, admin2'', STRIPE_SECRET_KEY = Some ''sk'',
        getAdminApp = None, verifyIdToken = (\<lambda>t. Inr ''''),
        reNovaMember =
          [(''m1'', \<lparr>md_uid = JStr ''m1'', md_email = JStr ''m@x'',
                    md_billing = Some \<lparr>bl_status = JStr ''active'',
                      bl_stripeSubscriptionId = JStr ''sub_1'',
                      bl_cancelAtPeriodEnd = JNull, bl_currentPeriodEndMs = JNull\<rparr>\<rparr>)],
        dbRead = (\<lambda>n. None), dbWrite = (\<lambda>n. None),
        createUser = (\<lambda>e p n. Inr ''new1''),
        subscriptionsUpdate = (\<lambda>i f. Inr (Some \<lparr>cancel_at_period_end = JBool False,
                                            current_period_end = JNum (Fin 1700000000)\<rparr>)),
        nullReadMessage = ''TypeError''\<rparr>"
      "''tok''" "''refused''" "''user1''" "''admin1''" "Some ''user1''"]
  by (simp add: cancel_POST_def getBearer_def getBearer_example findMemberRefByUid_def
      getStripe_def trim_def js_space_def js_mul_def Let_def to_double_Ints parseAdminUids_def)

text \<open>
  The claim as it is written fails for cancel-at-period-end: a principal that the
  identity provider accepts and that is not in the allow-list gets the subscription
  updated and the mirror written. It fails for the member list too, which answers a
  request that has no Authorization header.
\<close>

theorem identity_gate_counterexample:
  "''user1'' \<notin> set (parseAdminUids
      \<lparr>RENOVA_ADMIN_UIDS = Some ''admin1, admin2'', STRIPE_SECRET_KEY = Some ''sk'',
        getAdminApp = None, verifyIdToken = (\<lambda>t. Inr ''user1''),
        reNovaMember =
          [(''m1'', \<lparr>md_uid = JStr ''m1'', md_email = JStr ''m@x'',
                    md_billing = Some \<lparr>bl_status = JStr ''active'',
                      bl_stripeSubscriptionId = JStr ''sub_1'',
                      bl_cancelAtPeriodEnd = JNull, bl_currentPeriodEndMs = JNull\<rparr>\<rparr>)],
        dbRead = (\<lambda>n. None), dbWrite = (\<lambda>n. None),
        createUser = (\<lambda>e p n. Inr ''new1''),
        subscriptionsUpdate = (\<lambda>i f. Inr (Some \<lparr>cancel_at_period_end = JBool False,
                                            current_period_end = JNum (Fin 1700000000)\<rparr>)),
        nullReadMessage = ''TypeError''\<rparr>)
   \<and> cancel_POST
      \<lparr>RENOVA_ADMIN_UIDS = Some ''admin1, admin2'', STRIPE_SECRET_KEY = Some ''sk'',
        getAdminApp = None, verifyIdToken = (\<lambda>t. Inr ''user1''),
        reNovaMember =
          [(''m1'', \<lparr>md_uid = JStr ''m1'', md_email = JStr ''m@x'',
                    md_billing = Some \<lparr>bl_status = JStr ''active'',
                      bl_stripeSubscriptionId = JStr ''sub_1'',
                      bl_cancelAtPeriodEnd = JNull, bl_currentPeriodEndMs = JNull\<rparr>\<rparr>)],
        dbRead = (\<lambda>n. None), dbWrite = (\<lambda>n. None),
        createUser = (\<lambda>e p n. Inr ''new1''),
        subscriptionsUpdate = (\<lambda>i f. Inr (Some \<lparr>cancel_at_period_end = JBool False,
                                            current_period_end = JNum (Fin 1700000000)\<rparr>)),
        nullReadMessage = ''TypeError''\<rparr>
      \<lparr>req_authorization = Some ''Bearer tok'',
        req_json = Inr (JsonObject [(''uid'', JStr ''m1''), (''cancelAtPeriodEnd'', JBool True)])\<rparr>
   = ((200, OkCancel ''m1'' ''sub_1'' (Some False) (Some (Fin 1700000000000))),
      [StripeUpdate ''sub_1'' True,
       SetBillingMirror ''m1'' (Some False) (Some (Fin 1700000000000))])
   \<and> members_list_POST
      \<lparr>RENOVA_ADMIN_UIDS = Some ''admin1, admin2'', STRIPE_SECRET_KEY = Some ''sk'',
        getAdminApp = None, verifyIdToken = (\<lambda>t. Inr ''user1''),
        reNovaMember =
          [(''m1'', \<lparr>md_uid = JStr ''m1'', md_email = JStr ''m@x'',
                    md_billing = Some \<lparr>bl_status = JStr ''active'',
                      bl_stripeSubscriptionId = JStr ''sub_1'',
                      bl_cancelAtPeriodEnd = JNull, bl_currentPeriodEndMs = JNull\<rparr>\<rparr>)],
        dbRead = (\<lambda>n. None), dbWrite = (\<lambda>n. None),
        createUser = (\<lambda>e p n. Inr ''new1''),
        subscriptionsUpdate = (\<lambda>i f. Inr (Some \<lparr>cancel_at_period_end = JBool False,
                                            current_period_end = JNum (Fin 1700000000)\<rparr>)),
        nullReadMessage = ''TypeError''\<rparr>
      \<lparr>req_authorization = None,
        req_json = Inr (JsonObject [(''uid'', JStr ''m1''), (''cancelAtPeriodEnd'', JBool True)])\<rparr>
   = ((200, OkMembers [\<lparr>mr_uid = ''m1'', mr_email = ''m@x'', mr_status = Active,
                         mr_stripeSubscriptionId = ''sub_1'', mr_cancelAtPeriodEnd = None,
                         mr_currentPeriodEndMs = None\<rparr>]), [])"
  by (simp add: cancel_POST_def getBearer_def getBearer_example findMemberRefByUid_def
      getStripe_def trim_def js_space_def js_mul_def Let_def to_double_Ints parseAdminUids_def
      members_list_POST_def member_row_def billing_field_def toStatus_def)

subsection \<open>Billing status set\<close>

lemma gate_catch_not_400: "fst (gate_catch msg) \<noteq> 400"
  by (simp add: gate_catch_def)

lemma billing_status_POST_authorized:
  assumes "requireAdminFromRequest srv req = Inr p" and "req_json req = Inr body"
    and "body \<noteq> JsonNull"
  shows "billing_status_POST srv req =
     (if trim (toStr (property body ''uid'')) = [] then ((400, Failure ''uid_required''), [])
      else (case dbWrite srv 0 of
              Some msg \<Rightarrow> (gate_catch msg, [])
            | None \<Rightarrow>
                ((200, Ok),
                 [SetBillingStatus (trim (toStr (property body ''uid'')))
                    \<lparr>bw_mode = (if property body ''mode'' = JStr ''free'' then Free else Paid),
                     bw_status = (if property body ''status'' = JStr ''active'' then Active
                                  else Inactive),
                     bw_stripeCustomerId =
                       (case property body ''stripeCustomerId'' of JStr s \<Rightarrow> s | _ \<Rightarrow> []),
                     bw_stripeSubscriptionId =
                       (case property body ''stripeSubscriptionId'' of JStr s \<Rightarrow> s | _ \<Rightarrow> [])\<rparr>])))"
proof -
  have c: "toStr (coalesce v (JStr [])) = (case v of JStr s \<Rightarrow> s | _ \<Rightarrow> [])" for v
    by (cases v) (simp_all add: coalesce_def)
  show ?thesis
    using assms by (simp add: billing_status_POST_def Let_def toMode_def toStatus_def c)
qed

lemma billing_status_POST_unparsed:
  assumes "requireAdminFromRequest srv req = Inr p"
    and "\<not> (\<exists>body. req_json req = Inr body \<and> body \<noteq> JsonNull)"
  shows "fst (fst (billing_status_POST srv req)) \<noteq> 400"
proof (cases "req_json req")
  case (Inl msg)
  then show ?thesis using assms(1) by (simp add: billing_status_POST_def gate_catch_not_400)
next
  case (Inr body)
  then have "body = JsonNull" using assms(2) by simp
  then show ?thesis
    using assms(1) Inr by (simp add: billing_status_POST_def gate_catch_not_400)
qed

text \<open>
  Claim C10. For a request that passes the Identity Gate, the billing status set endpoint
  answers 400 exactly when the body is parsed and its \<^verbatim>\<open>uid\<close>, taken as the empty string
  when it is not a string, trims to the empty string, and the answer is then
  \<^verbatim>\<open>uid_required\<close>, with nothing written. Otherwise, for a parsed body, it writes the
  billing record of the trimmed uid: the mode is \<^verbatim>\<open>free\<close> for the string "free" and
  \<^verbatim>\<open>paid\<close> for every other value, the status \<^verbatim>\<open>active\<close> for the string "active" and
  \<^verbatim>\<open>inactive\<close> for every other value, each of the two ids the given string or the empty
  string; the answer is \<^verbatim>\<open>ok\<close>, or the store's error when the write fails.
\<close>

theorem billing_status_coercion:
  assumes "requireAdminFromRequest srv req = Inr p"
  shows "(fst (fst (billing_status_POST srv req)) = 400)
          = (\<exists>body. req_json req = Inr body \<and> body \<noteq> JsonNull
                \<and> trim (toStr (property body ''uid'')) = [])
     \<and> (fst (fst (billing_status_POST srv req)) = 400 \<longrightarrow>
          billing_status_POST srv req = ((400, Failure ''uid_required''), []))
     \<and> (req_json req = Inr body \<and> body \<noteq> JsonNull
          \<and> trim (toStr (property body ''uid'')) \<noteq> [] \<longrightarrow>
          billing_status_POST srv req =
            (case dbWrite srv 0 of
               Some msg \<Rightarrow> (gate_catch msg, [])
             | None \<Rightarrow>
                ((200, Ok),
                 [SetBillingStatus (trim (toStr (property body ''uid'')))
                    \<lparr>bw_mode = (if property body ''mode'' = JStr ''free'' then Free else Paid),
                     bw_status = (if property body ''status'' = JStr ''active'' then Active
                                  else Inactive),
                     bw_stripeCustomerId =
                       (case property body ''stripeCustomerId'' of JStr s \<Rightarrow> s | _ \<Rightarrow> []),
                     bw_stripeSubscriptionId =
                       (case property body ''stripeSubscriptionId'' of JStr s \<Rightarrow> s | _ \<Rightarrow> [])\<rparr>])))"
proof -
  have iff: "(fst (fst (billing_status_POST srv req)) = 400)
          = (\<exists>body. req_json req = Inr body \<and> body \<noteq> JsonNull
                \<and> trim (toStr (property body ''uid'')) = [])"
  proof (cases "\<exists>body. req_json req = Inr body \<and> body \<noteq> JsonNull")
    case False
    then show ?thesis using billing_status_POST_unparsed [OF assms] by blast
  next
    case True
    then obtain b where b: "req_json req = Inr b" "b \<noteq> JsonNull" by blast
    show ?thesis
      using b by (simp add: billing_status_POST_authorized [OF assms b] gate_catch_not_400
          split: option.splits)
  qed
  have only: "billing_status_POST srv req = ((400, Failure ''uid_required''), [])"
    if "fst (fst (billing_status_POST srv req)) = 400"
  proof -
    from that iff obtain b where b: "req_json req = Inr b" "b \<noteq> JsonNull"
      "trim (toStr (property b ''uid'')) = []" by blast
    then show ?thesis by (simp add: billing_status_POST_authorized [OF assms b(1,2)])
  qed
  have wr: "billing_status_POST srv req =
            (case dbWrite srv 0 of
               Some msg \<Rightarrow> (gate_catch msg, [])
             | None \<Rightarrow>
                ((200, Ok),
                 [SetBillingStatus (trim (toStr (property body ''uid'')))
                    \<lparr>bw_mode = (if property body ''mode'' = JStr ''free'' then Free else Paid),
                     bw_status = (if property body ''status'' = JStr ''active'' then Active
                                  else Inactive),
                     bw_stripeCustomerId =
                       (case property body ''stripeCustomerId'' of JStr s \<Rightarrow> s | _ \<Rightarrow> []),
                     bw_stripeSubscriptionId =
                       (case property body ''stripeSubscriptionId'' of JStr s \<Rightarrow> s | _ \<Rightarrow> [])\<rparr>]))"
    if "req_json req = Inr body \<and> body \<noteq> JsonNull
          \<and> trim (toStr (property body ''uid'')) \<noteq> []"
    using that by (simp add: billing_status_POST_authorized [OF assms])
  show ?thesis using iff only wr by blast
qed

theorem billing_status_coercion_witness:
  "billing_status_POST
      \<lparr>RENOVA_ADMIN_UIDS = Some ''admin1, admin2'', STRIPE_SECRET_KEY = Some ''sk'',
        getAdminApp = None, verifyIdToken = (\<lambda>t. Inr ''admin2''),
        reNovaMember = [],
        dbRead = (\<lambda>n. None), dbWrite = (\<lambda>n. None),
        createUser = (\<lambda>e p n. Inr ''new1''),
        subscriptionsUpdate = (\<lambda>i f. Inr None),
        nullReadMessage = ''TypeError''\<rparr>
      \<lparr>req_authorization = Some ''Bearer tok'',
        req_json = Inr (JsonObject [(''uid'', JStr '' u1 ''), (''mode'', JStr ''premium''),
                                    (''status'', JNum (Fin 5)), (''stripeCustomerId'', JNull)])\<rparr>
   = ((200, Ok),
      [SetBillingStatus ''u1''
         \<lparr>bw_mode = Paid, bw_status = Inactive, bw_stripeCustomerId = [],
          bw_stripeSubscriptionId = []\<rparr>])"
proof -
  have a: "requireAdminFromRequest
      \<lparr>RENOVA_ADMIN_UIDS = Some ''admin1, admin2'', STRIPE_SECRET_KEY = Some ''sk'',
        getAdminApp = None, verifyIdToken = (\<lambda>t. Inr ''admin2''),
        reNovaMember = [],
        dbRead = (\<lambda>n. None), dbWrite = (\<lambda>n. None),
        createUser = (\<lambda>e p n. Inr ''new1''),
        subscriptionsUpdate = (\<lambda>i f. Inr None),
        nullReadMessage = ''TypeError''\<rparr>
      \<lparr>req_authorization = Some ''Bearer tok'',
        req_json = Inr (JsonObject [(''uid'', JStr '' u1 ''), (''mode'', JStr ''premium''),
                                    (''status'', JNum (Fin 5)), (''stripeCustomerId'', JNull)])\<rparr>
    = Inr ''admin2''"
    by (simp add: requireAdminFromRequest_def getBearer_def getBearer_example
        parseAdminUids_def trim_def js_space_def)
  have t: "trim '' u1 '' = ''u1''"
    by (simp add: trim_def js_space_def)
  show ?thesis
    using billing_status_coercion [OF a, of "JsonObject [(''uid'', JStr '' u1 ''), (''mode'', JStr ''premium''),
                                    (''status'', JNum (Fin 5)), (''stripeCustomerId'', JNull)]"]
    by (simp add: t)
qed

end
